theory Spec2Isabelle
  imports Main
begin

section \<open>Lifecycle trackers of wallet.ts: ETHOperation and Transaction\<close>

text \<open>
  The two classes at the end of \<^verbatim>\<open>src/js/zksync.js/src/wallet.ts\<close> track an operation
  through its confirmation depths. Their methods are asynchronous, mutate the fields of
  the object and talk to two external collaborators (the outer-chain transaction handle
  and the zkSync provider). The embedding makes all of this explicit:
  \<^item> an object is a record of its mutable fields;
  \<^item> a method takes the object and the network and returns the fate of the promise it
    yields together with the updated object and network;
  \<^item> every \<^verbatim>\<open>throw\<close> and every rejected \<^verbatim>\<open>await\<close> is a \<open>Rejected\<close> result;
  \<^item> the external collaborators are parameters (record \<open>env\<close>) acting on an arbitrary
    world state, so that their answers may depend on everything that happened before.
\<close>

subsection \<open>Data\<close>

text \<open>The second argument of \<^verbatim>\<open>notifyPriorityOp\<close> and \<^verbatim>\<open>notifyTransaction\<close>.\<close>

datatype action = COMMIT | VERIFY

text \<open>
  Modelled from the spec: the receipt types \<^verbatim>\<open>PriorityOperationReceipt\<close> and
  \<^verbatim>\<open>TransactionReceipt\<close> are declared in \<^verbatim>\<open>./types\<close>, of which wallet.ts has only the
  import. The spec (section 3, Network Disposition) describes a terminal outcome as a
  success/failure flag, a reason string when failed, and receipt data that is opaque to
  the tracker. The records hold the fields that wallet.ts reads (\<^verbatim>\<open>executed\<close>;
  \<^verbatim>\<open>success\<close>, \<^verbatim>\<open>failReason\<close>) and the opaque rest. An optional field that is
  \<^verbatim>\<open>undefined\<close> is \<open>None\<close>, so \<^verbatim>\<open>!receipt.success\<close> holds unless the field is \<open>Some True\<close>.
\<close>

record PriorityOperationReceipt =
  executed :: bool
  po_data :: string

record TransactionReceipt =
  success :: "bool option"
  failReason :: "string option"
  tx_data :: string

datatype receipt_value =
  PriorityOp PriorityOperationReceipt
| SidechainTx TransactionReceipt

text \<open>\<^verbatim>\<open>class ZKSyncTxError extends Error\<close>: the message of the error and its \<^verbatim>\<open>value\<close>.\<close>

record ZKSyncTxError =
  message :: string
  "value" :: receipt_value

text \<open>
  What a \<^verbatim>\<open>throw\<close> can carry: a stored \<^verbatim>\<open>ZKSyncTxError\<close>, a plain \<^verbatim>\<open>new Error(msg)\<close>,
  the value \<^verbatim>\<open>undefined\<close> (\<^verbatim>\<open>throw this.error\<close> with the field unset), the \<^verbatim>\<open>TypeError\<close>
  of a method call on \<^verbatim>\<open>undefined\<close>, or an error raised by a collaborator.
\<close>

datatype thrown =
  ZkErr ZKSyncTxError
| JsError string
| JsUndefined
| JsTypeError
| External string

text \<open>
  The fate of a promise: it is fulfilled with a value, rejected with an error, or never
  settles. An \<^verbatim>\<open>await\<close> on a promise that never settles does not return, and the fields
  of the object stay as they were at that point.
\<close>

datatype 'a awaited = Fulfilled 'a | Rejected thrown | Pending

text \<open>\<^verbatim>\<open>utils.BigNumber\<close> of ethers: an integer of arbitrary size.\<close>

type_synonym BigNumber = int

text \<open>
  The receipt of \<^verbatim>\<open>ethTx.wait()\<close> (of which only \<^verbatim>\<open>logs\<close> is read) and the result of
  \<^verbatim>\<open>parseLog\<close> (of which only \<^verbatim>\<open>values.serialId\<close> is read; \<open>None\<close> when the parsed event
  has no such value).
\<close>

record 'log ContractReceipt =
  logs :: "'log list"

record LogDescription =
  serialId :: "BigNumber option"

datatype ETHOperation_state = Sent | Mined | Committed | Verified | Failed

datatype Transaction_state = TxSent | TxCommitted | TxVerified | TxFailed

text \<open>
  The network as the trackers see it: the state of the outside world, and a history of
  what a tracker did (each round trip it started and each assignment to its \<^verbatim>\<open>state\<close>
  field, in program order). The history is not a field of the source; it is kept so
  that claims about network activity and about the order of transitions can be stated.
\<close>

datatype event =
  Call_wait
| Call_notifyPriorityOp int action
| Call_notifyTransaction string action
| Set_state ETHOperation_state
| Set_tx_state Transaction_state

record 'w net =
  world :: 'w
  trace :: "event list"

definition emit :: "event \<Rightarrow> 'w net \<Rightarrow> 'w net" where
  "emit e n = n\<lparr>trace := trace n @ [e]\<rparr>"

text \<open>
  The collaborators: \<^verbatim>\<open>this.ethTx.wait()\<close>, \<^verbatim>\<open>SYNC_MAIN_CONTRACT_INTERFACE.parseLog\<close>,
  \<^verbatim>\<open>BigNumber.toNumber\<close> (which raises when the number is not a safe integer),
  \<^verbatim>\<open>zkSyncProvider.notifyPriorityOp\<close> and \<^verbatim>\<open>sidechainProvider.notifyTransaction\<close>.
  None of them is defined in wallet.ts, so all of them are parameters. The three
  asynchronous ones act on the world state and yield the fate of their promise;
  \<^verbatim>\<open>parseLog\<close> is a function of the log: it returns \<^verbatim>\<open>null\<close> (\<open>Inr None\<close>) for a log
  it does not recognise, the parsed event for one it recognises, and it throws
  (\<open>Inl\<close>) when the data of a log that it recognises cannot be decoded.
\<close>

record ('w, 'log) env =
  wait :: "'w \<Rightarrow> 'log ContractReceipt awaited \<times> 'w"
  parseLog :: "'log \<Rightarrow> thrown + LogDescription option"
  toNumber :: "BigNumber \<Rightarrow> thrown + int"
  notifyPriorityOp :: "'w \<Rightarrow> int \<Rightarrow> action \<Rightarrow> PriorityOperationReceipt awaited \<times> 'w"
  notifyTransaction :: "'w \<Rightarrow> string \<Rightarrow> action \<Rightarrow> TransactionReceipt awaited \<times> 'w"

subsection \<open>class ETHOperation\<close>

text \<open>
  The fields \<^verbatim>\<open>state\<close>, \<^verbatim>\<open>error\<close> and \<^verbatim>\<open>priorityOpId\<close>. The constructor arguments
  \<^verbatim>\<open>ethTx\<close> and \<^verbatim>\<open>zkSyncProvider\<close> are the collaborators of \<open>env\<close>.
\<close>

record ETHOperation =
  state :: ETHOperation_state
  error :: "ZKSyncTxError option"
  priorityOpId :: "BigNumber option"

definition new_ETHOperation :: ETHOperation where
  "new_ETHOperation = \<lparr>state = Sent, error = None, priorityOpId = None\<rparr>"

definition setErrorState :: "ZKSyncTxError \<Rightarrow> ETHOperation \<Rightarrow> ETHOperation" where
  "setErrorState err this = this\<lparr>state := Failed, error := Some err\<rparr>"

text \<open>\<open>Some x\<close> when the method throws \<open>x\<close>, \<open>None\<close> when it returns.\<close>

definition throwErrorIfFailedState :: "ETHOperation \<Rightarrow> thrown option" where
  "throwErrorIfFailedState this =
     (if state this = Failed
      then Some (case error this of None \<Rightarrow> JsUndefined | Some err \<Rightarrow> ZkErr err)
      else None)"

text \<open>
  The body of the \<^verbatim>\<open>for (const log of txReceipt.logs)\<close> loop, and the loop. The loop
  has no \<^verbatim>\<open>try\<close>: when \<^verbatim>\<open>parseLog\<close> throws, the loop ends there and the method is
  rejected with what was thrown, and an identifier written for an earlier log stays in
  the object. \<open>scan_logs\<close> returns what was thrown, if anything, and the object as the
  loop leaves it. The test \<^verbatim>\<open>!this.priorityOpId\<close> after the loop holds exactly when the
  field is unset: a \<^verbatim>\<open>BigNumber\<close> is an object and so is truthy, also when it is zero.
\<close>

definition scan_log :: "('w, 'log) env \<Rightarrow> 'log \<Rightarrow> ETHOperation \<Rightarrow> thrown + ETHOperation" where
  "scan_log E lg this =
     (case parseLog E lg of
        Inl x \<Rightarrow> Inl x
      | Inr None \<Rightarrow> Inr this
      | Inr (Some priorityQueueLog) \<Rightarrow>
          (case serialId priorityQueueLog of
             None \<Rightarrow> Inr this
           | Some sid \<Rightarrow> Inr (this\<lparr>priorityOpId := Some sid\<rparr>)))"

fun scan_logs ::
  "('w, 'log) env \<Rightarrow> 'log list \<Rightarrow> ETHOperation \<Rightarrow> thrown option \<times> ETHOperation" where
  "scan_logs E [] this = (None, this)"
| "scan_logs E (lg # lgs) this =
     (case scan_log E lg this of
        Inl x \<Rightarrow> (Some x, this)
      | Inr this1 \<Rightarrow> scan_logs E lgs this1)"

definition awaitEthereumTxCommit ::
  "('w, 'log) env \<Rightarrow> ETHOperation \<Rightarrow> 'w net
     \<Rightarrow> 'log ContractReceipt option awaited \<times> ETHOperation \<times> 'w net" where
  "awaitEthereumTxCommit E this n =
     (if state this \<noteq> Sent then (Fulfilled None, this, n)
      else
        (case wait E (world n) of (r, w1) \<Rightarrow>
           (let n1 = emit Call_wait (n\<lparr>world := w1\<rparr>) in
            (case r of
               Pending \<Rightarrow> (Pending, this, n1)
             | Rejected x \<Rightarrow> (Rejected x, this, n1)
             | Fulfilled txReceipt \<Rightarrow>
                 (case scan_logs E (logs txReceipt) this of
                    (Some x, this1) \<Rightarrow> (Rejected x, this1, n1)
                  | (None, this1) \<Rightarrow>
                      if priorityOpId this1 = None
                      then (Rejected (JsError ''Failed to parse tx logs''), this1, n1)
                      else (Fulfilled (Some txReceipt),
                            this1\<lparr>state := Mined\<rparr>, emit (Set_state Mined) n1))))))"

definition awaitReceipt ::
  "('w, 'log) env \<Rightarrow> ETHOperation \<Rightarrow> 'w net
     \<Rightarrow> PriorityOperationReceipt option awaited \<times> ETHOperation \<times> 'w net" where
  "awaitReceipt E this n =
     (case throwErrorIfFailedState this of
        Some x \<Rightarrow> (Rejected x, this, n)
      | None \<Rightarrow>
          (case awaitEthereumTxCommit E this n of
             (Pending, this1, n1) \<Rightarrow> (Pending, this1, n1)
           | (Rejected x, this1, n1) \<Rightarrow> (Rejected x, this1, n1)
           | (Fulfilled _, this1, n1) \<Rightarrow>
               if state this1 \<noteq> Mined then (Fulfilled None, this1, n1)
               else
                 (case priorityOpId this1 of
                    None \<Rightarrow> (Rejected JsTypeError, this1, n1)
                  | Some pid \<Rightarrow>
                      (case toNumber E pid of
                         Inl x \<Rightarrow> (Rejected x, this1, n1)
                       | Inr k \<Rightarrow>
                           (case notifyPriorityOp E (world n1) k COMMIT of (r, w2) \<Rightarrow>
                              (let n2 = emit (Call_notifyPriorityOp k COMMIT) (n1\<lparr>world := w2\<rparr>) in
                               (case r of
                                  Pending \<Rightarrow> (Pending, this1, n2)
                                | Rejected x \<Rightarrow> (Rejected x, this1, n2)
                                | Fulfilled receipt \<Rightarrow>
                                    if \<not> executed receipt
                                    then
                                      (let this2 = setErrorState
                                             \<lparr>message = ''Priority operation failed'',
                                              value = PriorityOp receipt\<rparr> this1;
                                           n3 = emit (Set_state Failed) n2 in
                                       (case throwErrorIfFailedState this2 of
                                          Some x \<Rightarrow> (Rejected x, this2, n3)
                                        | None \<Rightarrow>
                                            (Fulfilled (Some receipt),
                                             this2\<lparr>state := Committed\<rparr>,
                                             emit (Set_state Committed) n3)))
                                    else
                                      (Fulfilled (Some receipt),
                                       this1\<lparr>state := Committed\<rparr>,
                                       emit (Set_state Committed) n2))))))))"

definition awaitVerifyReceipt ::
  "('w, 'log) env \<Rightarrow> ETHOperation \<Rightarrow> 'w net
     \<Rightarrow> PriorityOperationReceipt option awaited \<times> ETHOperation \<times> 'w net" where
  "awaitVerifyReceipt E this n =
     (case awaitReceipt E this n of
        (Pending, this1, n1) \<Rightarrow> (Pending, this1, n1)
      | (Rejected x, this1, n1) \<Rightarrow> (Rejected x, this1, n1)
      | (Fulfilled _, this1, n1) \<Rightarrow>
          if state this1 \<noteq> Committed then (Fulfilled None, this1, n1)
          else
            (case priorityOpId this1 of
               None \<Rightarrow> (Rejected JsTypeError, this1, n1)
             | Some pid \<Rightarrow>
                 (case toNumber E pid of
                    Inl x \<Rightarrow> (Rejected x, this1, n1)
                  | Inr k \<Rightarrow>
                      (case notifyPriorityOp E (world n1) k VERIFY of (r, w2) \<Rightarrow>
                         (let n2 = emit (Call_notifyPriorityOp k VERIFY) (n1\<lparr>world := w2\<rparr>) in
                          (case r of
                             Pending \<Rightarrow> (Pending, this1, n2)
                           | Rejected x \<Rightarrow> (Rejected x, this1, n2)
                           | Fulfilled receipt \<Rightarrow>
                               (Fulfilled (Some receipt),
                                this1\<lparr>state := Verified\<rparr>,
                                emit (Set_state Verified) n2)))))))"

subsection \<open>class Transaction\<close>

text \<open>
  The fields \<^verbatim>\<open>state\<close>, \<^verbatim>\<open>error\<close> and \<^verbatim>\<open>txHash\<close>. The field \<^verbatim>\<open>txData\<close> is never read
  by the methods and is left out; \<^verbatim>\<open>sidechainProvider\<close> is the collaborator of \<open>env\<close>.
\<close>

record Transaction =
  tx_state :: Transaction_state
  tx_error :: "ZKSyncTxError option"
  txHash :: string

definition new_Transaction :: "string \<Rightarrow> Transaction" where
  "new_Transaction h = \<lparr>tx_state = TxSent, tx_error = None, txHash = h\<rparr>"

definition tx_setErrorState :: "ZKSyncTxError \<Rightarrow> Transaction \<Rightarrow> Transaction" where
  "tx_setErrorState err this = this\<lparr>tx_state := TxFailed, tx_error := Some err\<rparr>"

definition tx_throwErrorIfFailedState :: "Transaction \<Rightarrow> thrown option" where
  "tx_throwErrorIfFailedState this =
     (if tx_state this = TxFailed
      then Some (case tx_error this of None \<Rightarrow> JsUndefined | Some err \<Rightarrow> ZkErr err)
      else None)"

text \<open>The template literal \<^verbatim>\<open>${receipt.failReason}\<close>: an unset field prints as \<^verbatim>\<open>undefined\<close>.\<close>

definition failReason_text :: "TransactionReceipt \<Rightarrow> string" where
  "failReason_text receipt = (case failReason receipt of None \<Rightarrow> ''undefined'' | Some r \<Rightarrow> r)"

definition tx_awaitReceipt ::
  "('w, 'log) env \<Rightarrow> Transaction \<Rightarrow> 'w net
     \<Rightarrow> TransactionReceipt option awaited \<times> Transaction \<times> 'w net" where
  "tx_awaitReceipt E this n =
     (case tx_throwErrorIfFailedState this of
        Some x \<Rightarrow> (Rejected x, this, n)
      | None \<Rightarrow>
          if tx_state this \<noteq> TxSent then (Fulfilled None, this, n)
          else
            (case notifyTransaction E (world n) (txHash this) COMMIT of (r, w1) \<Rightarrow>
               (let n1 = emit (Call_notifyTransaction (txHash this) COMMIT) (n\<lparr>world := w1\<rparr>) in
                (case r of
                   Pending \<Rightarrow> (Pending, this, n1)
                 | Rejected x \<Rightarrow> (Rejected x, this, n1)
                 | Fulfilled receipt \<Rightarrow>
                     if success receipt \<noteq> Some True
                     then
                       (let this1 = tx_setErrorState
                              \<lparr>message = ''zkSync transaction failed: '' @ failReason_text receipt,
                               value = SidechainTx receipt\<rparr> this;
                            n2 = emit (Set_tx_state TxFailed) n1 in
                        (case tx_throwErrorIfFailedState this1 of
                           Some x \<Rightarrow> (Rejected x, this1, n2)
                         | None \<Rightarrow>
                             (Fulfilled (Some receipt),
                              this1\<lparr>tx_state := TxCommitted\<rparr>,
                              emit (Set_tx_state TxCommitted) n2)))
                     else
                       (Fulfilled (Some receipt),
                        this\<lparr>tx_state := TxCommitted\<rparr>,
                        emit (Set_tx_state TxCommitted) n1)))))"

definition tx_awaitVerifyReceipt ::
  "('w, 'log) env \<Rightarrow> Transaction \<Rightarrow> 'w net
     \<Rightarrow> TransactionReceipt option awaited \<times> Transaction \<times> 'w net" where
  "tx_awaitVerifyReceipt E this n =
     (case tx_awaitReceipt E this n of
        (Pending, this1, n1) \<Rightarrow> (Pending, this1, n1)
      | (Rejected x, this1, n1) \<Rightarrow> (Rejected x, this1, n1)
      | (Fulfilled _, this1, n1) \<Rightarrow>
          (case notifyTransaction E (world n1) (txHash this1) VERIFY of (r, w2) \<Rightarrow>
             (let n2 = emit (Call_notifyTransaction (txHash this1) VERIFY) (n1\<lparr>world := w2\<rparr>) in
              (case r of
                 Pending \<Rightarrow> (Pending, this1, n2)
               | Rejected x \<Rightarrow> (Rejected x, this1, n2)
               | Fulfilled receipt \<Rightarrow>
                   (Fulfilled (Some receipt),
                    this1\<lparr>tx_state := TxVerified\<rparr>,
                    emit (Set_tx_state TxVerified) n2)))))"

subsection \<open>Sequences of calls\<close>

text \<open>
  The public methods of each class, and a caller that invokes them one after the other
  on the same object. A call whose promise is rejected or never settles leaves the object
  as it was at that point, and the caller goes on with the next call.
\<close>

datatype ETHOperation_call = AwaitEthereumTxCommit | AwaitReceipt | AwaitVerifyReceipt

datatype Transaction_call = TxAwaitReceipt | TxAwaitVerifyReceipt

definition invoke ::
  "('w, 'log) env \<Rightarrow> ETHOperation_call \<Rightarrow> ETHOperation \<times> 'w net \<Rightarrow> ETHOperation \<times> 'w net" where
  "invoke E c cfg =
     (case cfg of (this, n) \<Rightarrow>
        (case c of
           AwaitEthereumTxCommit \<Rightarrow> snd (awaitEthereumTxCommit E this n)
         | AwaitReceipt \<Rightarrow> snd (awaitReceipt E this n)
         | AwaitVerifyReceipt \<Rightarrow> snd (awaitVerifyReceipt E this n)))"

fun run ::
  "('w, 'log) env \<Rightarrow> ETHOperation_call list \<Rightarrow> ETHOperation \<times> 'w net \<Rightarrow> ETHOperation \<times> 'w net" where
  "run E [] cfg = cfg"
| "run E (c # cs) cfg = run E cs (invoke E c cfg)"

definition tx_invoke ::
  "('w, 'log) env \<Rightarrow> Transaction_call \<Rightarrow> Transaction \<times> 'w net \<Rightarrow> Transaction \<times> 'w net" where
  "tx_invoke E c cfg =
     (case cfg of (this, n) \<Rightarrow>
        (case c of
           TxAwaitReceipt \<Rightarrow> snd (tx_awaitReceipt E this n)
         | TxAwaitVerifyReceipt \<Rightarrow> snd (tx_awaitVerifyReceipt E this n)))"

fun tx_run ::
  "('w, 'log) env \<Rightarrow> Transaction_call list \<Rightarrow> Transaction \<times> 'w net \<Rightarrow> Transaction \<times> 'w net" where
  "tx_run E [] cfg = cfg"
| "tx_run E (c # cs) cfg = tx_run E cs (tx_invoke E c cfg)"

text \<open>
  The ordering of the lifecycle states: \<open>Sent < Mined < Committed < Verified\<close> for an
  ETHOperation and \<open>Sent < Committed < Verified\<close> for a Transaction. A move from \<open>s\<close> to
  \<open>s'\<close> is permitted when it does not go backward in this ordering or when it enters
  \<open>Failed\<close>; out of \<open>Failed\<close> only \<open>Failed\<close> is permitted.
\<close>

fun depth_of :: "ETHOperation_state \<Rightarrow> nat" where
  "depth_of Sent = 0"
| "depth_of Mined = 1"
| "depth_of Committed = 2"
| "depth_of Verified = 3"
| "depth_of Failed = 0"

definition permitted :: "ETHOperation_state \<Rightarrow> ETHOperation_state \<Rightarrow> bool" where
  "permitted s s' =
     (if s = Failed then s' = Failed else s' = Failed \<or> depth_of s \<le> depth_of s')"

fun tx_depth_of :: "Transaction_state \<Rightarrow> nat" where
  "tx_depth_of TxSent = 0"
| "tx_depth_of TxCommitted = 1"
| "tx_depth_of TxVerified = 2"
| "tx_depth_of TxFailed = 0"

definition tx_permitted :: "Transaction_state \<Rightarrow> Transaction_state \<Rightarrow> bool" where
  "tx_permitted s s' =
     (if s = TxFailed then s' = TxFailed else s' = TxFailed \<or> tx_depth_of s \<le> tx_depth_of s')"

text \<open>
  The transitions of the two state machines as the methods perform them: what a
  single call can do to the fields of the object. The identifier is written in \<open>Sent\<close>
  only (also by a call that is rejected and stays in \<open>Sent\<close>), and the error on the way
  into \<open>Failed\<close> only.
\<close>

definition moves :: "ETHOperation \<Rightarrow> ETHOperation \<Rightarrow> bool" where
  "moves this this' =
     (this' = this
      \<or> state this = Sent \<and> state this' = Sent \<and> error this' = error this
      \<or> state this = Sent \<and> state this' = Mined \<and> error this' = error this
          \<and> priorityOpId this' \<noteq> None
      \<or> (state this = Sent \<or> state this = Mined \<and> priorityOpId this' = priorityOpId this)
          \<and> state this' = Committed \<and> error this' = error this \<and> priorityOpId this' \<noteq> None
      \<or> (state this = Sent \<or> state this = Mined \<and> priorityOpId this' = priorityOpId this)
          \<and> state this' = Failed \<and> error this' \<noteq> None \<and> priorityOpId this' \<noteq> None
      \<or> (state this = Sent
           \<or> (state this = Mined \<or> state this = Committed)
               \<and> priorityOpId this' = priorityOpId this)
          \<and> state this' = Verified \<and> error this' = error this \<and> priorityOpId this' \<noteq> None)"

definition tx_moves :: "Transaction \<Rightarrow> Transaction \<Rightarrow> bool" where
  "tx_moves this this' =
     (this' = this
      \<or> tx_state this = TxSent \<and> tx_state this' = TxCommitted \<and> tx_error this' = tx_error this
      \<or> tx_state this = TxSent \<and> tx_state this' = TxFailed \<and> tx_error this' \<noteq> None
      \<or> tx_state this \<noteq> TxFailed \<and> tx_state this' = TxVerified \<and> tx_error this' = tx_error this)"

text \<open>
  The logs of a receipt that match the priority-operation event, as the condition of the
  loop reads them: \<^verbatim>\<open>parseLog\<close> recognises the log and the parsed event has a
  \<^verbatim>\<open>serialId\<close>. \<open>priority_serialIds\<close> lists the identifiers of the matching logs in the
  order of the receipt. \<open>parseLog_returns\<close> says that \<^verbatim>\<open>parseLog\<close> does not throw on a
  log.
\<close>

definition parseLog_returns :: "('w, 'log) env \<Rightarrow> 'log \<Rightarrow> bool" where
  "parseLog_returns E lg = (case parseLog E lg of Inl x \<Rightarrow> False | Inr d \<Rightarrow> True)"

definition serialId_of :: "('w, 'log) env \<Rightarrow> 'log \<Rightarrow> BigNumber option" where
  "serialId_of E lg =
     (case parseLog E lg of
        Inl x \<Rightarrow> None
      | Inr None \<Rightarrow> None
      | Inr (Some d) \<Rightarrow> serialId d)"

definition priority_serialIds :: "('w, 'log) env \<Rightarrow> 'log list \<Rightarrow> BigNumber list" where
  "priority_serialIds E lgs = List.map_filter (serialId_of E) lgs"

subsection \<open>A concrete network\<close>

text \<open>
  A network for running the trackers on concrete inputs. Its world state counts the
  round trips. A log is a number: \<open>0\<close> is a log that \<^verbatim>\<open>parseLog\<close> does not recognise,
  \<open>1\<close> an event without a \<^verbatim>\<open>serialId\<close>, \<open>2\<close> a log on which \<^verbatim>\<open>parseLog\<close> throws, and
  any other number \<open>k\<close> a priority-operation event with \<^verbatim>\<open>serialId\<close> \<open>k\<close>. The receipt of \<^verbatim>\<open>wait()\<close> holds the given logs; the provider
  answers a poll at depth COMMIT or VERIFY with a receipt whose flag is the given one.
\<close>

definition demo_parseLog :: "nat \<Rightarrow> thrown + LogDescription option" where
  "demo_parseLog lg =
     (if lg = 0 then Inr None
      else if lg = 1 then Inr (Some \<lparr>serialId = None\<rparr>)
      else if lg = 2 then Inl (External ''malformed log data'')
      else Inr (Some \<lparr>serialId = Some (int lg)\<rparr>))"

definition demo_toNumber :: "BigNumber \<Rightarrow> thrown + int" where
  "demo_toNumber b = (if \<bar>b\<bar> < 2 ^ 53 then Inr b else Inl (External ''overflow''))"

definition demo_flag :: "bool \<Rightarrow> bool \<Rightarrow> action \<Rightarrow> bool" where
  "demo_flag commit_ok verify_ok a = (case a of COMMIT \<Rightarrow> commit_ok | VERIFY \<Rightarrow> verify_ok)"

definition demo_env :: "nat list \<Rightarrow> bool \<Rightarrow> bool \<Rightarrow> (nat, nat) env" where
  "demo_env lgs commit_ok verify_ok =
     \<lparr>wait = (\<lambda>w. (Fulfilled \<lparr>logs = lgs\<rparr>, Suc w)),
      parseLog = demo_parseLog,
      toNumber = demo_toNumber,
      notifyPriorityOp = (\<lambda>w k a.
        (Fulfilled \<lparr>executed = demo_flag commit_ok verify_ok a, po_data = ''block 7''\<rparr>, Suc w)),
      notifyTransaction = (\<lambda>w h a.
        (Fulfilled \<lparr>success = Some (demo_flag commit_ok verify_ok a),
                    failReason = (if demo_flag commit_ok verify_ok a then None
                                  else Some ''insufficient balance''),
                    tx_data = ''block 7''\<rparr>, Suc w))\<rparr>"

definition net0 :: "nat net" where
  "net0 = \<lparr>world = 0, trace = []\<rparr>"

section \<open>Properties\<close>

subsection \<open>The loop over the logs\<close>

lemma scan_log_serialId:
  "parseLog_returns E lg \<Longrightarrow>
   scan_log E lg this =
     Inr (case serialId_of E lg of None \<Rightarrow> this | Some sid \<Rightarrow> this\<lparr>priorityOpId := Some sid\<rparr>)"
  by (simp add: scan_log_def serialId_of_def parseLog_returns_def split: sum.splits option.splits)

lemma scan_logs_eq:
  "list_all (parseLog_returns E) lgs \<Longrightarrow>
   scan_logs E lgs this =
     (None, if priority_serialIds E lgs = [] then this
            else this\<lparr>priorityOpId := Some (last (priority_serialIds E lgs))\<rparr>)"
proof (induction lgs arbitrary: this)
  case Nil
  show ?case by (simp add: priority_serialIds_def)
next
  case (Cons lg lgs)
  from Cons.prems have lg: "parseLog_returns E lg" and lgs: "list_all (parseLog_returns E) lgs"
    by simp_all
  show ?case
    by (cases "serialId_of E lg")
       (simp_all add: Cons.IH [OF lgs] scan_log_serialId [OF lg] priority_serialIds_def)
qed

lemma scan_log_fields:
  "scan_log E lg this = Inr this1 \<Longrightarrow> state this1 = state this \<and> error this1 = error this"
  by (auto simp: scan_log_def split: sum.splits option.splits)

lemma scan_logs_fields:
  "scan_logs E lgs this = (x, this1) \<Longrightarrow> state this1 = state this \<and> error this1 = error this"
proof (induction lgs arbitrary: this)
  case Nil
  then show ?case by simp
next
  case (Cons lg lgs)
  show ?case
  proof (cases "scan_log E lg this")
    case (Inl y)
    with Cons.prems show ?thesis by simp
  next
    case (Inr this0)
    with Cons.prems have "scan_logs E lgs this0 = (x, this1)" by simp
    then have "state this1 = state this0 \<and> error this1 = error this0" by (rule Cons.IH)
    with scan_log_fields [OF Inr] show ?thesis by simp
  qed
qed

lemma commit_not_Sent:
  "state this \<noteq> Sent \<Longrightarrow> awaitEthereumTxCommit E this n = (Fulfilled None, this, n)"
  by (simp add: awaitEthereumTxCommit_def)

subsection \<open>ETHOperation: what each method does to the object\<close>

lemma commit_moves:
  assumes "awaitEthereumTxCommit E this n = (r, this', n')"
  shows "this' = this
      \<or> state this = Sent \<and> state this' = Sent \<and> error this' = error this
      \<or> state this = Sent \<and> state this' = Mined \<and> error this' = error this
          \<and> priorityOpId this' \<noteq> None"
  using assms
  by (auto simp: awaitEthereumTxCommit_def Let_def dest: scan_logs_fields
      split: if_splits prod.splits awaited.splits option.splits)

lemma receipt_Failed:
  "state this = Failed \<Longrightarrow>
     awaitReceipt E this n =
       (Rejected (case error this of None \<Rightarrow> JsUndefined | Some err \<Rightarrow> ZkErr err), this, n)"
  by (simp add: awaitReceipt_def throwErrorIfFailedState_def)

lemma receipt_done:
  "state this = Committed \<or> state this = Verified \<Longrightarrow>
     awaitReceipt E this n = (Fulfilled None, this, n)"
  by (auto simp: awaitReceipt_def throwErrorIfFailedState_def commit_not_Sent)

lemma receipt_moves:
  assumes "awaitReceipt E this n = (r, this', n')"
  shows "moves this this'"
proof (cases "state this = Failed")
  case True
  with assms have "this' = this" by (simp add: receipt_Failed)
  then show ?thesis by (simp add: moves_def)
next
  case False
  obtain r1 this1 n1 where c: "awaitEthereumTxCommit E this n = (r1, this1, n1)"
    by (cases "awaitEthereumTxCommit E this n") 
  have m: "this1 = this
      \<or> state this = Sent \<and> state this1 = Sent \<and> error this1 = error this
      \<or> state this = Sent \<and> state this1 = Mined \<and> error this1 = error this
          \<and> priorityOpId this1 \<noteq> None"
    using c by (rule commit_moves)
  have "this' = this1
    \<or> state this1 = Mined \<and> priorityOpId this1 \<noteq> None \<and> priorityOpId this' = priorityOpId this1 \<and>
        (state this' = Committed \<and> error this' = error this1 \<or> state this' = Failed \<and> error this' \<noteq> None)"
    using assms c False
    by (auto simp: awaitReceipt_def throwErrorIfFailedState_def setErrorState_def Let_def
         split: if_splits prod.splits awaited.splits option.splits sum.splits) 
  with m show ?thesis
    unfolding moves_def by (elim disjE conjE) simp_all
qed

lemma verify_Failed:
  "state this = Failed \<Longrightarrow>
     awaitVerifyReceipt E this n =
       (Rejected (case error this of None \<Rightarrow> JsUndefined | Some err \<Rightarrow> ZkErr err), this, n)"
  by (simp add: awaitVerifyReceipt_def receipt_Failed)

lemma verify_done:
  "state this = Verified \<Longrightarrow> awaitVerifyReceipt E this n = (Fulfilled None, this, n)"
  by (simp add: awaitVerifyReceipt_def receipt_done)

lemma verify_moves:
  assumes "awaitVerifyReceipt E this n = (r, this', n')"
  shows "moves this this'"
proof -
  obtain r1 this1 n1 where c: "awaitReceipt E this n = (r1, this1, n1)"
    by (cases "awaitReceipt E this n") 
  have m: "moves this this1"
    using c by (rule receipt_moves)
  have "this' = this1
    \<or> state this1 = Committed \<and> priorityOpId this1 \<noteq> None \<and> priorityOpId this' = priorityOpId this1
       \<and> state this' = Verified \<and> error this' = error this1"
    using assms c
    by (auto simp: awaitVerifyReceipt_def Let_def
         split: if_splits prod.splits awaited.splits option.splits sum.splits) 
  with m show ?thesis
    unfolding moves_def by (elim disjE conjE) simp_all
qed

lemma invoke_moves: "moves (fst cfg) (fst (invoke E c cfg))"
proof (cases cfg)
  case (Pair this n)
  show ?thesis
  proof (cases c)
    case AwaitEthereumTxCommit
    obtain r this' n' where e: "awaitEthereumTxCommit E this n = (r, this', n')"
      by (cases "awaitEthereumTxCommit E this n")
    from commit_moves [OF e] have "moves this this'"
      by (auto simp: moves_def)
    with e Pair AwaitEthereumTxCommit show ?thesis by (simp add: invoke_def)
  next
    case AwaitReceipt
    obtain r this' n' where e: "awaitReceipt E this n = (r, this', n')"
      by (cases "awaitReceipt E this n")
    from receipt_moves [OF e] e Pair AwaitReceipt show ?thesis by (simp add: invoke_def)
  next
    case AwaitVerifyReceipt
    obtain r this' n' where e: "awaitVerifyReceipt E this n = (r, this', n')"
      by (cases "awaitVerifyReceipt E this n")
    from verify_moves [OF e] e Pair AwaitVerifyReceipt show ?thesis by (simp add: invoke_def)
  qed
qed

lemma moves_permitted: "moves this this' \<Longrightarrow> permitted (state this) (state this')"
  unfolding moves_def permitted_def by (elim disjE conjE) simp_all

lemma permitted_refl: "permitted s s"
  by (simp add: permitted_def)

lemma permitted_trans: "permitted s t \<Longrightarrow> permitted t u \<Longrightarrow> permitted s u"
  by (auto simp: permitted_def split: if_splits)

lemma moves_error:
  "moves this this' \<Longrightarrow> (error this \<noteq> None) = (state this = Failed)
     \<Longrightarrow> (error this' \<noteq> None) = (state this' = Failed)"
  unfolding moves_def by (elim disjE conjE) simp_all

lemma moves_id:
  "moves this this' \<Longrightarrow> (state this \<noteq> Sent \<longrightarrow> priorityOpId this \<noteq> None)
     \<Longrightarrow> (state this' \<noteq> Sent \<longrightarrow> priorityOpId this' \<noteq> None)"
  unfolding moves_def by (elim disjE conjE) simp_all

lemma moves_id_kept:
  "moves this this' \<Longrightarrow> state this \<noteq> Sent
     \<Longrightarrow> priorityOpId this' = priorityOpId this \<and> state this' \<noteq> Sent"
  unfolding moves_def by (elim disjE conjE) simp_all

lemma run_append: "run E (cs @ cs') cfg = run E cs' (run E cs cfg)"
  by (induction cs arbitrary: cfg) simp_all

lemma run_permitted: "permitted (state (fst cfg)) (state (fst (run E cs cfg)))"
proof (induction cs arbitrary: cfg)
  case Nil
  show ?case by (simp add: permitted_refl)
next
  case (Cons c cs)
  have "permitted (state (fst cfg)) (state (fst (invoke E c cfg)))"
    by (rule moves_permitted [OF invoke_moves])
  moreover have "permitted (state (fst (invoke E c cfg))) (state (fst (run E cs (invoke E c cfg))))"
    by (rule Cons.IH)
  ultimately show ?case by (simp add: permitted_trans)
qed

lemma run_error:
  "(error (fst cfg) \<noteq> None) = (state (fst cfg) = Failed) \<Longrightarrow>
   (error (fst (run E cs cfg)) \<noteq> None) = (state (fst (run E cs cfg)) = Failed)"
proof (induction cs arbitrary: cfg)
  case Nil
  then show ?case by simp
next
  case (Cons c cs)
  from invoke_moves Cons.prems
  have "(error (fst (invoke E c cfg)) \<noteq> None) = (state (fst (invoke E c cfg)) = Failed)"
    by (rule moves_error)
  then show ?case using Cons.IH by simp
qed

lemma run_id:
  "(state (fst cfg) \<noteq> Sent \<longrightarrow> priorityOpId (fst cfg) \<noteq> None) \<Longrightarrow>
   (state (fst (run E cs cfg)) \<noteq> Sent \<longrightarrow> priorityOpId (fst (run E cs cfg)) \<noteq> None)"
proof (induction cs arbitrary: cfg)
  case Nil
  then show ?case by simp
next
  case (Cons c cs)
  from invoke_moves Cons.prems
  have "state (fst (invoke E c cfg)) \<noteq> Sent \<longrightarrow> priorityOpId (fst (invoke E c cfg)) \<noteq> None"
    by (rule moves_id)
  then show ?case using Cons.IH by simp
qed

lemma run_id_kept:
  "state (fst cfg) \<noteq> Sent \<Longrightarrow>
   priorityOpId (fst (run E cs cfg)) = priorityOpId (fst cfg) \<and> state (fst (run E cs cfg)) \<noteq> Sent"
proof (induction cs arbitrary: cfg)
  case Nil
  then show ?case by simp
next
  case (Cons c cs)
  from invoke_moves Cons.prems
  have k: "priorityOpId (fst (invoke E c cfg)) = priorityOpId (fst cfg) \<and> state (fst (invoke E c cfg)) \<noteq> Sent"
    by (rule moves_id_kept)
  then show ?case using Cons.IH [of "invoke E c cfg"] by simp
qed

subsection \<open>ETHOperation: the history of a call\<close>

lemma receipt_not_Verified:
  assumes "awaitReceipt E this n = (r, this', n')" and "state this \<noteq> Verified"
  shows "state this' \<noteq> Verified"
proof (cases "state this = Failed")
  case True
  with assms show ?thesis by (simp add: receipt_Failed)
next
  case False
  obtain r1 this1 n1 where c: "awaitEthereumTxCommit E this n = (r1, this1, n1)"
    by (cases "awaitEthereumTxCommit E this n")
  from commit_moves [OF c] assms(2) have "state this1 \<noteq> Verified" by auto
  with assms(1) c False show ?thesis
    by (auto simp: awaitReceipt_def throwErrorIfFailedState_def setErrorState_def Let_def
         split: if_splits prod.splits awaited.splits option.splits sum.splits)
qed

lemma commit_Sent_trace:
  "state this = Sent \<Longrightarrow>
     \<exists>t. trace (snd (snd (awaitEthereumTxCommit E this n))) = trace n @ Call_wait # t"
  by (simp add: awaitEthereumTxCommit_def Let_def emit_def
       split: prod.splits awaited.splits option.splits)

lemma receipt_trace_grows:
  assumes "awaitEthereumTxCommit E this n = (r1, this1, n1)" and "state this \<noteq> Failed"
  shows "\<exists>t. trace (snd (snd (awaitReceipt E this n))) = trace n1 @ t"
  using assms
  by (simp add: awaitReceipt_def throwErrorIfFailedState_def setErrorState_def Let_def emit_def
       split: prod.splits awaited.splits option.splits sum.splits)

lemma receipt_Sent_trace:
  assumes "state this = Sent"
  shows "\<exists>t. trace (snd (snd (awaitReceipt E this n))) = trace n @ Call_wait # t"
proof -
  obtain r1 this1 n1 where c: "awaitEthereumTxCommit E this n = (r1, this1, n1)"
    by (cases "awaitEthereumTxCommit E this n")
  from commit_Sent_trace [OF assms, of E n] c
  obtain t1 where t1: "trace n1 = trace n @ Call_wait # t1" by auto
  from receipt_trace_grows [OF c] assms
  obtain t2 where "trace (snd (snd (awaitReceipt E this n))) = trace n1 @ t2" by auto
  with t1 show ?thesis by simp
qed

lemma verify_trace_grows:
  assumes "awaitReceipt E this n = (r1, this1, n1)"
  shows "\<exists>t. trace (snd (snd (awaitVerifyReceipt E this n))) = trace n1 @ t"
  using assms
  by (simp add: awaitVerifyReceipt_def Let_def emit_def
       split: prod.splits awaited.splits option.splits sum.splits)

lemma verify_Sent_trace:
  assumes "state this = Sent"
  shows "\<exists>t. trace (snd (snd (awaitVerifyReceipt E this n))) = trace n @ Call_wait # t"
proof -
  obtain r1 this1 n1 where c: "awaitReceipt E this n = (r1, this1, n1)"
    by (cases "awaitReceipt E this n")
  from receipt_Sent_trace [OF assms, of E n] c
  obtain t1 where t1: "trace n1 = trace n @ Call_wait # t1" by auto
  from verify_trace_grows [OF c]
  obtain t2 where "trace (snd (snd (awaitVerifyReceipt E this n))) = trace n1 @ t2" by auto
  with t1 show ?thesis by simp
qed

lemma verify_Verified_path:
  assumes "state (fst (snd (awaitVerifyReceipt E new_ETHOperation n))) = Verified"
  shows "\<exists>k. trace (snd (snd (awaitVerifyReceipt E new_ETHOperation n))) =
            trace n @ [Call_wait, Set_state Mined, Call_notifyPriorityOp k COMMIT,
                       Set_state Committed, Call_notifyPriorityOp k VERIFY, Set_state Verified]"
proof -
  obtain r0 this0 n0 where c: "awaitEthereumTxCommit E new_ETHOperation n = (r0, this0, n0)"
    by (cases "awaitEthereumTxCommit E new_ETHOperation n")
  obtain r1 this1 n1 where r: "awaitReceipt E new_ETHOperation n = (r1, this1, n1)"
    by (cases "awaitReceipt E new_ETHOperation n")
  obtain r2 this2 n2 where v: "awaitVerifyReceipt E new_ETHOperation n = (r2, this2, n2)"
    by (cases "awaitVerifyReceipt E new_ETHOperation n")
  from assms v have s2: "state this2 = Verified" by simp
  have s1: "state this1 \<noteq> Verified"
    using receipt_not_Verified [OF r] by (simp add: new_ETHOperation_def)
  from v r s2 s1 have step3: "state this1 = Committed \<and>
      (\<exists>k. toNumber E (the (priorityOpId this1)) = Inr k \<and>
        trace n2 = trace n1 @ [Call_notifyPriorityOp k VERIFY, Set_state Verified])"
    by (auto simp: awaitVerifyReceipt_def Let_def emit_def
        split: if_splits prod.splits awaited.splits option.splits sum.splits)
  from commit_moves [OF c] have s0: "state this0 \<noteq> Committed"
    by (auto simp: new_ETHOperation_def)
  from r c step3 s0 have step2: "state this0 = Mined \<and> priorityOpId this1 = priorityOpId this0 \<and>
      (\<exists>k. toNumber E (the (priorityOpId this0)) = Inr k \<and>
        trace n1 = trace n0 @ [Call_notifyPriorityOp k COMMIT, Set_state Committed])"
    by (auto simp: awaitReceipt_def throwErrorIfFailedState_def setErrorState_def Let_def emit_def
          new_ETHOperation_def
        split: if_splits prod.splits awaited.splits option.splits sum.splits)
  from c step2 have step1: "trace n0 = trace n @ [Call_wait, Set_state Mined]"
    by (auto simp: awaitEthereumTxCommit_def Let_def emit_def new_ETHOperation_def
        dest: scan_logs_fields
        split: if_splits prod.splits awaited.splits option.splits)
  from step1 step2 step3 v show ?thesis by auto
qed

subsection \<open>Transaction: what each method does to the object\<close>

lemma tx_receipt_Failed:
  "tx_state this = TxFailed \<Longrightarrow>
     tx_awaitReceipt E this n =
       (Rejected (case tx_error this of None \<Rightarrow> JsUndefined | Some err \<Rightarrow> ZkErr err), this, n)"
  by (simp add: tx_awaitReceipt_def tx_throwErrorIfFailedState_def)

lemma tx_receipt_done:
  "tx_state this = TxCommitted \<or> tx_state this = TxVerified \<Longrightarrow>
     tx_awaitReceipt E this n = (Fulfilled None, this, n)"
  by (auto simp: tx_awaitReceipt_def tx_throwErrorIfFailedState_def)

lemma tx_receipt_moves:
  assumes "tx_awaitReceipt E this n = (r, this', n')"
  shows "this' = this
      \<or> tx_state this = TxSent \<and> tx_state this' = TxCommitted \<and> tx_error this' = tx_error this
          \<and> r \<noteq> Pending \<and> (\<forall>x. r \<noteq> Rejected x)
      \<or> tx_state this = TxSent \<and> tx_state this' = TxFailed \<and> tx_error this' \<noteq> None
          \<and> (\<exists>x. r = Rejected x)"
  using assms
  by (auto simp: tx_awaitReceipt_def tx_throwErrorIfFailedState_def tx_setErrorState_def Let_def
       split: if_splits prod.splits awaited.splits option.splits)

lemma tx_verify_Failed:
  "tx_state this = TxFailed \<Longrightarrow>
     tx_awaitVerifyReceipt E this n =
       (Rejected (case tx_error this of None \<Rightarrow> JsUndefined | Some err \<Rightarrow> ZkErr err), this, n)"
  by (simp add: tx_awaitVerifyReceipt_def tx_receipt_Failed)

lemma tx_verify_moves:
  assumes "tx_awaitVerifyReceipt E this n = (r, this', n')"
  shows "tx_moves this this'"
proof (cases "tx_state this = TxFailed")
  case True
  with assms have "this' = this" by (simp add: tx_verify_Failed)
  then show ?thesis by (simp add: tx_moves_def)
next
  case False
  obtain r1 this1 n1 where c: "tx_awaitReceipt E this n = (r1, this1, n1)"
    by (cases "tx_awaitReceipt E this n") 
  note m = tx_receipt_moves [OF c]
  have "this' = this1 \<or> (r1 \<noteq> Pending \<and> (\<forall>x. r1 \<noteq> Rejected x)) \<and>
          tx_state this' = TxVerified \<and> tx_error this' = tx_error this1"
    using assms c
    by (auto simp: tx_awaitVerifyReceipt_def Let_def
         split: if_splits prod.splits awaited.splits) 
  with m False show ?thesis
    unfolding tx_moves_def by (elim disjE conjE exE) simp_all
qed

lemma tx_verify_polls_again:
  assumes "tx_state this = TxCommitted \<or> tx_state this = TxVerified"
  shows "\<exists>t. trace (snd (snd (tx_awaitVerifyReceipt E this n))) =
           trace n @ Call_notifyTransaction (txHash this) VERIFY # t"
  using assms
  by (auto simp: tx_awaitVerifyReceipt_def tx_receipt_done Let_def emit_def
       split: prod.splits awaited.splits)

lemma tx_invoke_moves: "tx_moves (fst cfg) (fst (tx_invoke E c cfg))"
proof (cases cfg)
  case (Pair this n)
  show ?thesis
  proof (cases c)
    case TxAwaitReceipt
    obtain r this' n' where e: "tx_awaitReceipt E this n = (r, this', n')"
      by (cases "tx_awaitReceipt E this n")
    from tx_receipt_moves [OF e] have "tx_moves this this'"
      by (auto simp: tx_moves_def)
    with e Pair TxAwaitReceipt show ?thesis by (simp add: tx_invoke_def)
  next
    case TxAwaitVerifyReceipt
    obtain r this' n' where e: "tx_awaitVerifyReceipt E this n = (r, this', n')"
      by (cases "tx_awaitVerifyReceipt E this n")
    from tx_verify_moves [OF e] e Pair TxAwaitVerifyReceipt show ?thesis
      by (simp add: tx_invoke_def)
  qed
qed

lemma tx_moves_permitted: "tx_moves this this' \<Longrightarrow> tx_permitted (tx_state this) (tx_state this')"
  by (cases "tx_state this") (auto simp: tx_moves_def tx_permitted_def)

lemma tx_permitted_refl: "tx_permitted s s"
  by (simp add: tx_permitted_def)

lemma tx_permitted_trans: "tx_permitted s t \<Longrightarrow> tx_permitted t u \<Longrightarrow> tx_permitted s u"
  by (auto simp: tx_permitted_def split: if_splits)

lemma tx_moves_error:
  "tx_moves this this' \<Longrightarrow> (tx_error this \<noteq> None) = (tx_state this = TxFailed)
     \<Longrightarrow> (tx_error this' \<noteq> None) = (tx_state this' = TxFailed)"
  unfolding tx_moves_def by (elim disjE conjE) simp_all

lemma tx_run_append: "tx_run E (cs @ cs') cfg = tx_run E cs' (tx_run E cs cfg)"
  by (induction cs arbitrary: cfg) simp_all

lemma tx_run_permitted: "tx_permitted (tx_state (fst cfg)) (tx_state (fst (tx_run E cs cfg)))"
proof (induction cs arbitrary: cfg)
  case Nil
  show ?case by (simp add: tx_permitted_refl)
next
  case (Cons c cs)
  have "tx_permitted (tx_state (fst cfg)) (tx_state (fst (tx_invoke E c cfg)))"
    by (rule tx_moves_permitted [OF tx_invoke_moves])
  moreover have "tx_permitted (tx_state (fst (tx_invoke E c cfg)))
                   (tx_state (fst (tx_run E cs (tx_invoke E c cfg))))"
    by (rule Cons.IH)
  ultimately show ?case by (simp add: tx_permitted_trans)
qed

lemma tx_run_error:
  "(tx_error (fst cfg) \<noteq> None) = (tx_state (fst cfg) = TxFailed) \<Longrightarrow>
   (tx_error (fst (tx_run E cs cfg)) \<noteq> None) = (tx_state (fst (tx_run E cs cfg)) = TxFailed)"
proof (induction cs arbitrary: cfg)
  case Nil
  then show ?case by simp
next
  case (Cons c cs)
  from tx_invoke_moves Cons.prems
  have "(tx_error (fst (tx_invoke E c cfg)) \<noteq> None) = (tx_state (fst (tx_invoke E c cfg)) = TxFailed)"
    by (rule tx_moves_error)
  then show ?case using Cons.IH by simp
qed

subsection \<open>Unfolding on concrete inputs\<close>

lemmas eth_defs = awaitEthereumTxCommit_def awaitReceipt_def awaitVerifyReceipt_def
  throwErrorIfFailedState_def setErrorState_def new_ETHOperation_def invoke_def scan_log_def
lemmas tx_defs = tx_awaitReceipt_def tx_awaitVerifyReceipt_def tx_throwErrorIfFailedState_def
  tx_setErrorState_def new_Transaction_def tx_invoke_def failReason_text_def
lemmas demo_defs = demo_env_def demo_parseLog_def demo_toNumber_def demo_flag_def net0_def emit_def

text \<open>
  A receipt whose second log makes \<^verbatim>\<open>parseLog\<close> throw: the call is rejected with what was
  thrown, the state stays \<open>Sent\<close>, and the identifier of the first log stays in the object.
\<close>

lemma parseLog_throw_keeps_identifier:
  "awaitEthereumTxCommit (demo_env [42, 2] True True) new_ETHOperation net0 =
     (Rejected (External ''malformed log data''),
      \<lparr>state = Sent, error = None, priorityOpId = Some 42\<rparr>,
      \<lparr>world = 1, trace = [Call_wait]\<rparr>)"
  by (simp add: eth_defs demo_defs Let_def)

section \<open>The claims\<close>

subsection \<open>C1: a receipt without a priority-operation log\<close>

text \<open>
  C1, as amended. When the receipt of the outer-chain transaction holds no log that
  matches the priority-operation event, \<^verbatim>\<open>awaitEthereumTxCommit\<close> throws the plain error
  \<^verbatim>\<open>Failed to parse tx logs\<close>; it does not go through \<^verbatim>\<open>setErrorState\<close>. On a tracker in
  \<open>Sent\<close> whose identifier is unset (as it is after construction), and with
  \<^verbatim>\<open>parseLog\<close> returning on every log of the receipt, each of the three await methods is
  rejected with that error after one \<^verbatim>\<open>wait()\<close> and leaves the object as it was: the state stays \<open>Sent\<close> (it reaches neither \<open>Mined\<close> nor \<open>Failed\<close>), and no error
  and no identifier is stored. A later await on that object, in any network, starts by
  waiting for the receipt again.
\<close>

theorem log_parse_failure_stays_Sent:
  assumes "state this = Sent" and "priorityOpId this = None"
    and "wait E (world n) = (Fulfilled rc, w1)"
    and "list_all (parseLog_returns E) (logs rc)"
    and "priority_serialIds E (logs rc) = []"
  shows "awaitEthereumTxCommit E this n =
           (Rejected (JsError ''Failed to parse tx logs''), this, emit Call_wait (n\<lparr>world := w1\<rparr>))
     \<and> awaitReceipt E this n =
           (Rejected (JsError ''Failed to parse tx logs''), this, emit Call_wait (n\<lparr>world := w1\<rparr>))
     \<and> awaitVerifyReceipt E this n =
           (Rejected (JsError ''Failed to parse tx logs''), this, emit Call_wait (n\<lparr>world := w1\<rparr>))
     \<and> (\<exists>t. trace (snd (snd (awaitReceipt E' this n'))) = trace n' @ Call_wait # t)
     \<and> (\<exists>t. trace (snd (snd (awaitVerifyReceipt E' this n'))) = trace n' @ Call_wait # t)"
proof -
  have c: "awaitEthereumTxCommit E this n =
           (Rejected (JsError ''Failed to parse tx logs''), this, emit Call_wait (n\<lparr>world := w1\<rparr>))"
    using assms by (simp add: awaitEthereumTxCommit_def Let_def scan_logs_eq)
  have r: "awaitReceipt E this n =
           (Rejected (JsError ''Failed to parse tx logs''), this, emit Call_wait (n\<lparr>world := w1\<rparr>))"
    using assms(1) by (simp add: awaitReceipt_def throwErrorIfFailedState_def c)
  have v: "awaitVerifyReceipt E this n =
           (Rejected (JsError ''Failed to parse tx logs''), this, emit Call_wait (n\<lparr>world := w1\<rparr>))"
    by (simp add: awaitVerifyReceipt_def r)
  from c r v receipt_Sent_trace [OF assms(1)] verify_Sent_trace [OF assms(1)]
  show ?thesis by blast
qed


theorem log_parse_failure_stays_Sent_witness:
  "state new_ETHOperation = Sent \<and> priorityOpId new_ETHOperation = None
   \<and> wait (demo_env [0, 1, 0] True True) (world net0) = (Fulfilled \<lparr>logs = [0, 1, 0]\<rparr>, 1)
   \<and> list_all (parseLog_returns (demo_env [0, 1, 0] True True)) (logs \<lparr>logs = [0, 1, 0]\<rparr>)
   \<and> priority_serialIds (demo_env [0, 1, 0] True True) (logs \<lparr>logs = [0, 1, 0]\<rparr>) = []
   \<and> awaitVerifyReceipt (demo_env [0, 1, 0] True True) new_ETHOperation net0 =
        (Rejected (JsError ''Failed to parse tx logs''), new_ETHOperation,
         \<lparr>world = 1, trace = [Call_wait]\<rparr>)"
proof -
  have h1: "state new_ETHOperation = Sent" and h2: "priorityOpId new_ETHOperation = None"
    by (simp_all add: new_ETHOperation_def)
  have h3: "wait (demo_env [0, 1, 0] True True) (world net0) = (Fulfilled \<lparr>logs = [0, 1, 0]\<rparr>, 1)"
    by (simp add: demo_defs)
  have h4: "list_all (parseLog_returns (demo_env [0, 1, 0] True True)) (logs \<lparr>logs = [0, 1, 0]\<rparr>)"
    by (simp add: parseLog_returns_def demo_defs)
  have h5: "priority_serialIds (demo_env [0, 1, 0] True True) (logs \<lparr>logs = [0, 1, 0]\<rparr>) = []"
    by (simp add: priority_serialIds_def serialId_of_def demo_defs)
  from log_parse_failure_stays_Sent [OF h1 h2 h3 h4 h5]
  have "awaitVerifyReceipt (demo_env [0, 1, 0] True True) new_ETHOperation net0 =
        (Rejected (JsError ''Failed to parse tx logs''), new_ETHOperation,
         emit Call_wait (net0\<lparr>world := 1\<rparr>))"
    by (rule conjunct1 [OF conjunct2 [OF conjunct2]])
  with h1 h2 h3 h4 h5 show ?thesis
    by (simp add: net0_def emit_def)
qed


text \<open>
  C1, as stated, fails: with the logs \<open>[0, 1, 0]\<close>, none of which matches, the tracker
  is still in \<open>Sent\<close> with no stored error after \<^verbatim>\<open>awaitReceipt\<close>, and a second
  \<^verbatim>\<open>awaitReceipt\<close> makes a second round trip.
\<close>

theorem log_parse_failure_counterexample:
  "priority_serialIds (demo_env [0, 1, 0] True True) [0, 1, 0] = []
   \<and> state (fst (snd (awaitReceipt (demo_env [0, 1, 0] True True) new_ETHOperation net0))) = Sent
   \<and> state (fst (snd (awaitReceipt (demo_env [0, 1, 0] True True) new_ETHOperation net0))) \<noteq> Failed
   \<and> error (fst (snd (awaitReceipt (demo_env [0, 1, 0] True True) new_ETHOperation net0))) = None
   \<and> trace (snd (run (demo_env [0, 1, 0] True True) [AwaitReceipt] (new_ETHOperation, net0)))
        = [Call_wait]
   \<and> trace (snd (run (demo_env [0, 1, 0] True True) [AwaitReceipt, AwaitReceipt]
        (new_ETHOperation, net0))) = [Call_wait, Call_wait]"
  by (simp add: eth_defs demo_defs priority_serialIds_def serialId_of_def Let_def)


subsection \<open>C2: a failed disposition at depth VERIFY\<close>

text \<open>
  C2, as amended. Neither tracker reads the flag of the receipt that a poll at depth
  VERIFY returns. Whenever \<^verbatim>\<open>awaitVerifyReceipt\<close> gets as far as that poll and the poll
  returns a receipt, whatever its flag, the tracker enters \<open>Verified\<close> (not \<open>Failed\<close>)
  and the call returns that receipt.
\<close>

theorem verify_poll_enters_Verified:
  "(awaitReceipt E this n = (Fulfilled x, this1, n1) \<longrightarrow> state this1 = Committed \<longrightarrow>
      priorityOpId this1 = Some pid \<longrightarrow> toNumber E pid = Inr k \<longrightarrow>
      notifyPriorityOp E (world n1) k VERIFY = (Fulfilled receipt, w2) \<longrightarrow>
      awaitVerifyReceipt E this n =
        (Fulfilled (Some receipt), this1\<lparr>state := Verified\<rparr>,
         emit (Set_state Verified) (emit (Call_notifyPriorityOp k VERIFY) (n1\<lparr>world := w2\<rparr>))))
   \<and> (tx_awaitReceipt E' that m = (Fulfilled y, that1, m1) \<longrightarrow>
      notifyTransaction E' (world m1) (txHash that1) VERIFY = (Fulfilled tx_receipt, v2) \<longrightarrow>
      tx_awaitVerifyReceipt E' that m =
        (Fulfilled (Some tx_receipt), that1\<lparr>tx_state := TxVerified\<rparr>,
         emit (Set_tx_state TxVerified)
           (emit (Call_notifyTransaction (txHash that1) VERIFY) (m1\<lparr>world := v2\<rparr>))))"
  by (simp add: awaitVerifyReceipt_def tx_awaitVerifyReceipt_def Let_def)


theorem verify_poll_enters_Verified_witness:
  "awaitReceipt (demo_env [42] True False) new_ETHOperation net0 =
      (Fulfilled (Some \<lparr>executed = True, po_data = ''block 7''\<rparr>),
       \<lparr>state = Committed, error = None, priorityOpId = Some 42\<rparr>,
       \<lparr>world = 2,
        trace = [Call_wait, Set_state Mined, Call_notifyPriorityOp 42 COMMIT, Set_state Committed]\<rparr>)
   \<and> toNumber (demo_env [42] True False) 42 = Inr 42
   \<and> notifyPriorityOp (demo_env [42] True False) 2 42 VERIFY =
      (Fulfilled \<lparr>executed = False, po_data = ''block 7''\<rparr>, 3)
   \<and> awaitVerifyReceipt (demo_env [42] True False) new_ETHOperation net0 =
      (Fulfilled (Some \<lparr>executed = False, po_data = ''block 7''\<rparr>),
       \<lparr>state = Verified, error = None, priorityOpId = Some 42\<rparr>,
       \<lparr>world = 3,
        trace = [Call_wait, Set_state Mined, Call_notifyPriorityOp 42 COMMIT, Set_state Committed,
                 Call_notifyPriorityOp 42 VERIFY, Set_state Verified]\<rparr>)
   \<and> tx_awaitReceipt (demo_env [] True False) (new_Transaction ''h'') net0 =
      (Fulfilled (Some \<lparr>success = Some True, failReason = None, tx_data = ''block 7''\<rparr>),
       \<lparr>tx_state = TxCommitted, tx_error = None, txHash = ''h''\<rparr>,
       \<lparr>world = 1, trace = [Call_notifyTransaction ''h'' COMMIT, Set_tx_state TxCommitted]\<rparr>)
   \<and> notifyTransaction (demo_env [] True False) 1 ''h'' VERIFY =
      (Fulfilled \<lparr>success = Some False, failReason = Some ''insufficient balance'',
                  tx_data = ''block 7''\<rparr>, 2)
   \<and> tx_awaitVerifyReceipt (demo_env [] True False) (new_Transaction ''h'') net0 =
      (Fulfilled (Some \<lparr>success = Some False, failReason = Some ''insufficient balance'',
                        tx_data = ''block 7''\<rparr>),
       \<lparr>tx_state = TxVerified, tx_error = None, txHash = ''h''\<rparr>,
       \<lparr>world = 2,
        trace = [Call_notifyTransaction ''h'' COMMIT, Set_tx_state TxCommitted,
                 Call_notifyTransaction ''h'' VERIFY, Set_tx_state TxVerified]\<rparr>)"
proof -
  have a: "awaitReceipt (demo_env [42] True False) new_ETHOperation net0 =
      (Fulfilled (Some \<lparr>executed = True, po_data = ''block 7''\<rparr>),
       \<lparr>state = Committed, error = None, priorityOpId = Some 42\<rparr>,
       \<lparr>world = 2,
        trace = [Call_wait, Set_state Mined, Call_notifyPriorityOp 42 COMMIT, Set_state Committed]\<rparr>)"
    by (simp add: eth_defs demo_defs Let_def)
  have b: "toNumber (demo_env [42] True False) 42 = Inr 42"
    by (simp add: demo_defs)
  have c: "notifyPriorityOp (demo_env [42] True False) 2 42 VERIFY =
      (Fulfilled \<lparr>executed = False, po_data = ''block 7''\<rparr>, 3)"
    by (simp add: demo_defs)
  have d: "tx_awaitReceipt (demo_env [] True False) (new_Transaction ''h'') net0 =
      (Fulfilled (Some \<lparr>success = Some True, failReason = None, tx_data = ''block 7''\<rparr>),
       \<lparr>tx_state = TxCommitted, tx_error = None, txHash = ''h''\<rparr>,
       \<lparr>world = 1, trace = [Call_notifyTransaction ''h'' COMMIT, Set_tx_state TxCommitted]\<rparr>)"
    by (simp add: tx_defs demo_defs Let_def)
  have e: "notifyTransaction (demo_env [] True False) 1 ''h'' VERIFY =
      (Fulfilled \<lparr>success = Some False, failReason = Some ''insufficient balance'',
                  tx_data = ''block 7''\<rparr>, 2)"
    by (simp add: demo_defs)
  from a b c d e
    verify_poll_enters_Verified [where E = "demo_env [42] True False" and this = new_ETHOperation
      and n = net0 and x = "Some \<lparr>executed = True, po_data = ''block 7''\<rparr>"
      and ?this1.0 = "\<lparr>state = Committed, error = None, priorityOpId = Some 42\<rparr>"
      and ?n1.0 = "\<lparr>world = 2,
        trace = [Call_wait, Set_state Mined, Call_notifyPriorityOp 42 COMMIT, Set_state Committed]\<rparr>"
      and pid = 42 and k = 42 and receipt = "\<lparr>executed = False, po_data = ''block 7''\<rparr>"
      and ?w2.0 = 3
      and E' = "demo_env [] True False" and that = "new_Transaction ''h''" and m = net0
      and y = "Some \<lparr>success = Some True, failReason = None, tx_data = ''block 7''\<rparr>"
      and ?that1.0 = "\<lparr>tx_state = TxCommitted, tx_error = None, txHash = ''h''\<rparr>"
      and ?m1.0 = "\<lparr>world = 1, trace = [Call_notifyTransaction ''h'' COMMIT, Set_tx_state TxCommitted]\<rparr>"
      and tx_receipt = "\<lparr>success = Some False, failReason = Some ''insufficient balance'',
                  tx_data = ''block 7''\<rparr>"
      and ?v2.0 = 2]
  show ?thesis
    by (simp add: emit_def)
qed


text \<open>
  C2, as stated, fails: the provider answers the poll at depth VERIFY with a receipt
  marked as failed, and both trackers end in \<open>Verified\<close>.
\<close>

theorem verify_poll_enters_Verified_counterexample:
  "fst (awaitVerifyReceipt (demo_env [42] True False) new_ETHOperation net0)
     = Fulfilled (Some \<lparr>executed = False, po_data = ''block 7''\<rparr>)
   \<and> state (fst (snd (awaitVerifyReceipt (demo_env [42] True False) new_ETHOperation net0)))
     = Verified
   \<and> state (fst (snd (awaitVerifyReceipt (demo_env [42] True False) new_ETHOperation net0)))
     \<noteq> Failed
   \<and> fst (tx_awaitVerifyReceipt (demo_env [] True False) (new_Transaction ''h'') net0)
     = Fulfilled (Some \<lparr>success = Some False, failReason = Some ''insufficient balance'',
                        tx_data = ''block 7''\<rparr>)
   \<and> tx_state (fst (snd (tx_awaitVerifyReceipt (demo_env [] True False)
        (new_Transaction ''h'') net0))) = TxVerified
   \<and> tx_state (fst (snd (tx_awaitVerifyReceipt (demo_env [] True False)
        (new_Transaction ''h'') net0))) \<noteq> TxFailed"
  by (simp add: eth_defs tx_defs demo_defs Let_def)


subsection \<open>C3: awaiting a depth that has been reached\<close>

text \<open>
  C3, as amended. On a tracker that has reached the requested depth, the await makes no
  round trip, changes nothing and returns \<^verbatim>\<open>undefined\<close> (not the receipt of the earlier
  call): \<^verbatim>\<open>awaitEthereumTxCommit\<close> from \<open>Mined\<close> on, \<^verbatim>\<open>awaitReceipt\<close> of either class
  from \<open>Committed\<close> on, \<^verbatim>\<open>ETHOperation.awaitVerifyReceipt\<close> in \<open>Verified\<close>. Hence two
  such calls in a row return equal results. On a tracker in \<open>Failed\<close>, \<^verbatim>\<open>awaitReceipt\<close>
  and \<^verbatim>\<open>awaitVerifyReceipt\<close> of either class make no round trip, change nothing and
  throw the stored \<^verbatim>\<open>error\<close> field. (Nothing is said here about
  \<^verbatim>\<open>Transaction.awaitVerifyReceipt\<close> on a tracker that is not in \<open>Failed\<close>.)
\<close>

theorem reawait_is_quiet:
  "(state this \<in> {Mined, Committed, Verified} \<longrightarrow>
      awaitEthereumTxCommit E this n = (Fulfilled None, this, n))
   \<and> (state this \<in> {Committed, Verified} \<longrightarrow> awaitReceipt E this n = (Fulfilled None, this, n))
   \<and> (state this = Verified \<longrightarrow> awaitVerifyReceipt E this n = (Fulfilled None, this, n))
   \<and> (state this = Failed \<longrightarrow>
        awaitReceipt E this n =
          (Rejected (case error this of None \<Rightarrow> JsUndefined | Some err \<Rightarrow> ZkErr err), this, n)
        \<and> awaitVerifyReceipt E this n =
          (Rejected (case error this of None \<Rightarrow> JsUndefined | Some err \<Rightarrow> ZkErr err), this, n))
   \<and> (tx_state that \<in> {TxCommitted, TxVerified} \<longrightarrow>
        tx_awaitReceipt E' that m = (Fulfilled None, that, m))
   \<and> (tx_state that = TxFailed \<longrightarrow>
        tx_awaitReceipt E' that m =
          (Rejected (case tx_error that of None \<Rightarrow> JsUndefined | Some err \<Rightarrow> ZkErr err), that, m)
        \<and> tx_awaitVerifyReceipt E' that m =
          (Rejected (case tx_error that of None \<Rightarrow> JsUndefined | Some err \<Rightarrow> ZkErr err), that, m))"
proof (intro conjI impI)
  assume "state this \<in> {Mined, Committed, Verified}"
  then have "state this \<noteq> Sent" by auto
  then show "awaitEthereumTxCommit E this n = (Fulfilled None, this, n)"
    by (rule commit_not_Sent)
next
  assume "state this \<in> {Committed, Verified}"
  then show "awaitReceipt E this n = (Fulfilled None, this, n)"
    by (simp add: receipt_done)
next
  assume "state this = Verified"
  then show "awaitVerifyReceipt E this n = (Fulfilled None, this, n)"
    by (rule verify_done)
next
  assume "state this = Failed"
  then show "awaitReceipt E this n =
      (Rejected (case error this of None \<Rightarrow> JsUndefined | Some err \<Rightarrow> ZkErr err), this, n)"
    by (rule receipt_Failed)
next
  assume "state this = Failed"
  then show "awaitVerifyReceipt E this n =
      (Rejected (case error this of None \<Rightarrow> JsUndefined | Some err \<Rightarrow> ZkErr err), this, n)"
    by (rule verify_Failed)
next
  assume "tx_state that \<in> {TxCommitted, TxVerified}"
  then show "tx_awaitReceipt E' that m = (Fulfilled None, that, m)"
    by (simp add: tx_receipt_done)
next
  assume "tx_state that = TxFailed"
  then show "tx_awaitReceipt E' that m =
      (Rejected (case tx_error that of None \<Rightarrow> JsUndefined | Some err \<Rightarrow> ZkErr err), that, m)"
    by (rule tx_receipt_Failed)
next
  assume "tx_state that = TxFailed"
  then show "tx_awaitVerifyReceipt E' that m =
      (Rejected (case tx_error that of None \<Rightarrow> JsUndefined | Some err \<Rightarrow> ZkErr err), that, m)"
    by (rule tx_verify_Failed)
qed


theorem reawait_is_quiet_witness:
  "state \<lparr>state = Verified, error = None, priorityOpId = Some 42\<rparr>
     \<in> {Mined, Committed, Verified}
   \<and> state \<lparr>state = Verified, error = None, priorityOpId = Some 42\<rparr> \<in> {Committed, Verified}
   \<and> awaitEthereumTxCommit (demo_env [42] True True)
        \<lparr>state = Verified, error = None, priorityOpId = Some 42\<rparr> net0
      = (Fulfilled None, \<lparr>state = Verified, error = None, priorityOpId = Some 42\<rparr>, net0)
   \<and> awaitReceipt (demo_env [42] True True)
        \<lparr>state = Verified, error = None, priorityOpId = Some 42\<rparr> net0
      = (Fulfilled None, \<lparr>state = Verified, error = None, priorityOpId = Some 42\<rparr>, net0)
   \<and> awaitVerifyReceipt (demo_env [42] True True)
        \<lparr>state = Verified, error = None, priorityOpId = Some 42\<rparr> net0
      = (Fulfilled None, \<lparr>state = Verified, error = None, priorityOpId = Some 42\<rparr>, net0)
   \<and> tx_state \<lparr>tx_state = TxCommitted, tx_error = None, txHash = ''h''\<rparr>
        \<in> {TxCommitted, TxVerified}
   \<and> tx_awaitReceipt (demo_env [42] True True)
        \<lparr>tx_state = TxCommitted, tx_error = None, txHash = ''h''\<rparr> net0
      = (Fulfilled None, \<lparr>tx_state = TxCommitted, tx_error = None, txHash = ''h''\<rparr>, net0)
   \<and> state (setErrorState \<lparr>message = ''Priority operation failed'',
         value = PriorityOp \<lparr>executed = False, po_data = ''block 7''\<rparr>\<rparr>
         \<lparr>state = Mined, error = None, priorityOpId = Some 42\<rparr>) = Failed
   \<and> awaitVerifyReceipt (demo_env [42] True True)
        (setErrorState \<lparr>message = ''Priority operation failed'',
           value = PriorityOp \<lparr>executed = False, po_data = ''block 7''\<rparr>\<rparr>
           \<lparr>state = Mined, error = None, priorityOpId = Some 42\<rparr>) net0
      = (Rejected (ZkErr \<lparr>message = ''Priority operation failed'',
           value = PriorityOp \<lparr>executed = False, po_data = ''block 7''\<rparr>\<rparr>),
         \<lparr>state = Failed,
          error = Some \<lparr>message = ''Priority operation failed'',
            value = PriorityOp \<lparr>executed = False, po_data = ''block 7''\<rparr>\<rparr>,
          priorityOpId = Some 42\<rparr>, net0)
   \<and> tx_state (tx_setErrorState \<lparr>message = ''zkSync transaction failed: undefined'',
         value = SidechainTx \<lparr>success = None, failReason = None, tx_data = []\<rparr>\<rparr>
         (new_Transaction ''h'')) = TxFailed
   \<and> tx_awaitVerifyReceipt (demo_env [42] True True)
        (tx_setErrorState \<lparr>message = ''zkSync transaction failed: undefined'',
           value = SidechainTx \<lparr>success = None, failReason = None, tx_data = []\<rparr>\<rparr>
           (new_Transaction ''h'')) net0
      = (Rejected (ZkErr \<lparr>message = ''zkSync transaction failed: undefined'',
           value = SidechainTx \<lparr>success = None, failReason = None, tx_data = []\<rparr>\<rparr>),
         \<lparr>tx_state = TxFailed,
          tx_error = Some \<lparr>message = ''zkSync transaction failed: undefined'',
            value = SidechainTx \<lparr>success = None, failReason = None, tx_data = []\<rparr>\<rparr>,
          txHash = ''h''\<rparr>, net0)"
  using reawait_is_quiet [where this = "\<lparr>state = Verified, error = None, priorityOpId = Some 42\<rparr>"
      and E = "demo_env [42] True True" and n = net0
      and that = "\<lparr>tx_state = TxCommitted, tx_error = None, txHash = ''h''\<rparr>"
      and E' = "demo_env [42] True True" and m = net0]
    reawait_is_quiet [where this = "setErrorState \<lparr>message = ''Priority operation failed'',
           value = PriorityOp \<lparr>executed = False, po_data = ''block 7''\<rparr>\<rparr>
           \<lparr>state = Mined, error = None, priorityOpId = Some 42\<rparr>"
      and E = "demo_env [42] True True" and n = net0
      and that = "tx_setErrorState \<lparr>message = ''zkSync transaction failed: undefined'',
           value = SidechainTx \<lparr>success = None, failReason = None, tx_data = []\<rparr>\<rparr>
           (new_Transaction ''h'')"
      and E' = "demo_env [42] True True" and m = net0]
  by (simp add: setErrorState_def tx_setErrorState_def new_Transaction_def)


text \<open>
  C3, as stated, fails: the first \<^verbatim>\<open>awaitReceipt\<close> returns the receipt of the COMMIT
  poll and leaves the tracker in \<open>Committed\<close>; the second one returns \<^verbatim>\<open>undefined\<close>,
  which is not the result computed before.
\<close>

theorem reawait_is_quiet_counterexample:
  "fst (awaitReceipt (demo_env [42] True True) new_ETHOperation net0)
     = Fulfilled (Some \<lparr>executed = True, po_data = ''block 7''\<rparr>)
   \<and> state (fst (run (demo_env [42] True True) [AwaitReceipt] (new_ETHOperation, net0))) = Committed
   \<and> fst (awaitReceipt (demo_env [42] True True)
        (fst (run (demo_env [42] True True) [AwaitReceipt] (new_ETHOperation, net0)))
        (snd (run (demo_env [42] True True) [AwaitReceipt] (new_ETHOperation, net0))))
     = Fulfilled None
   \<and> fst (awaitReceipt (demo_env [42] True True)
        (fst (run (demo_env [42] True True) [AwaitReceipt] (new_ETHOperation, net0)))
        (snd (run (demo_env [42] True True) [AwaitReceipt] (new_ETHOperation, net0))))
     \<noteq> fst (awaitReceipt (demo_env [42] True True) new_ETHOperation net0)"
  by (simp add: eth_defs demo_defs Let_def)


subsection \<open>C4: sequencing of awaitVerifyReceipt\<close>

text \<open>
  C4. \<^verbatim>\<open>awaitVerifyReceipt\<close> on a newly constructed ETHOperation: if the call ends in
  \<open>Verified\<close>, its history is exactly the receipt of the outer chain, \<open>Mined\<close>, the poll
  at depth COMMIT, \<open>Committed\<close>, the poll at depth VERIFY for the same identifier and
  \<open>Verified\<close>, in this order. If the poll at depth COMMIT (reached with \<^verbatim>\<open>parseLog\<close>
  returning on every log of the receipt) reports a receipt that was not executed, the call is rejected with the stored error, the tracker ends in \<open>Failed\<close>,
  and the call has issued no poll at depth VERIFY.
\<close>

theorem verify_sequencing:
  "(state (fst (snd (awaitVerifyReceipt E new_ETHOperation n))) = Verified \<longrightarrow>
      (\<exists>k. trace (snd (snd (awaitVerifyReceipt E new_ETHOperation n))) =
            trace n @ [Call_wait, Set_state Mined, Call_notifyPriorityOp k COMMIT,
                       Set_state Committed, Call_notifyPriorityOp k VERIFY, Set_state Verified]))
   \<and> (wait E (world n) = (Fulfilled rc, w1) \<longrightarrow>
      list_all (parseLog_returns E) (logs rc) \<longrightarrow>
      priority_serialIds E (logs rc) \<noteq> [] \<longrightarrow>
      toNumber E (last (priority_serialIds E (logs rc))) = Inr k \<longrightarrow>
      notifyPriorityOp E w1 k COMMIT = (Fulfilled receipt, w2) \<longrightarrow>
      \<not> executed receipt \<longrightarrow>
      awaitVerifyReceipt E new_ETHOperation n =
        (Rejected (ZkErr \<lparr>message = ''Priority operation failed'', value = PriorityOp receipt\<rparr>),
         \<lparr>state = Failed,
          error = Some \<lparr>message = ''Priority operation failed'', value = PriorityOp receipt\<rparr>,
          priorityOpId = Some (last (priority_serialIds E (logs rc)))\<rparr>,
         \<lparr>world = w2,
          trace = trace n @ [Call_wait, Set_state Mined, Call_notifyPriorityOp k COMMIT,
                             Set_state Failed]\<rparr>)
      \<and> (\<forall>j. Call_notifyPriorityOp j VERIFY
               \<notin> set (drop (length (trace n))
                     (trace (snd (snd (awaitVerifyReceipt E new_ETHOperation n)))))))"
proof (intro conjI impI)
  assume "state (fst (snd (awaitVerifyReceipt E new_ETHOperation n))) = Verified"
  then show "\<exists>k. trace (snd (snd (awaitVerifyReceipt E new_ETHOperation n))) =
            trace n @ [Call_wait, Set_state Mined, Call_notifyPriorityOp k COMMIT,
                       Set_state Committed, Call_notifyPriorityOp k VERIFY, Set_state Verified]"
    by (rule verify_Verified_path)
next
  assume h: "wait E (world n) = (Fulfilled rc, w1)" "priority_serialIds E (logs rc) \<noteq> []"
    "toNumber E (last (priority_serialIds E (logs rc))) = Inr k"
    "notifyPriorityOp E w1 k COMMIT = (Fulfilled receipt, w2)" "\<not> executed receipt"
    "list_all (parseLog_returns E) (logs rc)"
  have c: "awaitEthereumTxCommit E new_ETHOperation n =
      (Fulfilled (Some rc),
       \<lparr>state = Mined, error = None, priorityOpId = Some (last (priority_serialIds E (logs rc)))\<rparr>,
       \<lparr>world = w1, trace = trace n @ [Call_wait, Set_state Mined]\<rparr>)"
    using h(1,2,6)
    by (simp add: awaitEthereumTxCommit_def Let_def scan_logs_eq new_ETHOperation_def emit_def)
  have r: "awaitReceipt E new_ETHOperation n =
        (Rejected (ZkErr \<lparr>message = ''Priority operation failed'', value = PriorityOp receipt\<rparr>),
         \<lparr>state = Failed,
          error = Some \<lparr>message = ''Priority operation failed'', value = PriorityOp receipt\<rparr>,
          priorityOpId = Some (last (priority_serialIds E (logs rc)))\<rparr>,
         \<lparr>world = w2,
          trace = trace n @ [Call_wait, Set_state Mined, Call_notifyPriorityOp k COMMIT,
                             Set_state Failed]\<rparr>)"
    unfolding awaitReceipt_def c
    using h(3,4,5)
    by (simp add: throwErrorIfFailedState_def setErrorState_def Let_def emit_def
        new_ETHOperation_def)
  show v: "awaitVerifyReceipt E new_ETHOperation n =
        (Rejected (ZkErr \<lparr>message = ''Priority operation failed'', value = PriorityOp receipt\<rparr>),
         \<lparr>state = Failed,
          error = Some \<lparr>message = ''Priority operation failed'', value = PriorityOp receipt\<rparr>,
          priorityOpId = Some (last (priority_serialIds E (logs rc)))\<rparr>,
         \<lparr>world = w2,
          trace = trace n @ [Call_wait, Set_state Mined, Call_notifyPriorityOp k COMMIT,
                             Set_state Failed]\<rparr>)"
    by (simp add: awaitVerifyReceipt_def r)
  show "\<forall>j. Call_notifyPriorityOp j VERIFY
               \<notin> set (drop (length (trace n))
                     (trace (snd (snd (awaitVerifyReceipt E new_ETHOperation n)))))"
    by (simp add: v)
qed


theorem verify_sequencing_witness:
  "state (fst (snd (awaitVerifyReceipt (demo_env [0, 42] True True) new_ETHOperation net0)))
     = Verified
   \<and> trace (snd (snd (awaitVerifyReceipt (demo_env [0, 42] True True) new_ETHOperation net0)))
     = [Call_wait, Set_state Mined, Call_notifyPriorityOp 42 COMMIT, Set_state Committed,
        Call_notifyPriorityOp 42 VERIFY, Set_state Verified]
   \<and> wait (demo_env [0, 42] False True) (world net0) = (Fulfilled \<lparr>logs = [0, 42]\<rparr>, 1)
   \<and> list_all (parseLog_returns (demo_env [0, 42] False True)) (logs \<lparr>logs = [0, 42]\<rparr>)
   \<and> priority_serialIds (demo_env [0, 42] False True) (logs \<lparr>logs = [0, 42]\<rparr>) = [42]
   \<and> toNumber (demo_env [0, 42] False True) 42 = Inr 42
   \<and> notifyPriorityOp (demo_env [0, 42] False True) 1 42 COMMIT
     = (Fulfilled \<lparr>executed = False, po_data = ''block 7''\<rparr>, 2)
   \<and> awaitVerifyReceipt (demo_env [0, 42] False True) new_ETHOperation net0 =
       (Rejected (ZkErr \<lparr>message = ''Priority operation failed'',
                         value = PriorityOp \<lparr>executed = False, po_data = ''block 7''\<rparr>\<rparr>),
        \<lparr>state = Failed,
         error = Some \<lparr>message = ''Priority operation failed'',
                      value = PriorityOp \<lparr>executed = False, po_data = ''block 7''\<rparr>\<rparr>,
         priorityOpId = Some 42\<rparr>,
        \<lparr>world = 2,
         trace = [Call_wait, Set_state Mined, Call_notifyPriorityOp 42 COMMIT, Set_state Failed]\<rparr>)"
proof -
  have ok: "state (fst (snd (awaitVerifyReceipt (demo_env [0, 42] True True) new_ETHOperation net0)))
     = Verified"
    by (simp add: eth_defs demo_defs Let_def)
  have ids: "priority_serialIds (demo_env [0, 42] False True) (logs \<lparr>logs = [0, 42]\<rparr>) = [42]"
    by (simp add: priority_serialIds_def serialId_of_def demo_defs)
  have ret: "list_all (parseLog_returns (demo_env [0, 42] False True)) (logs \<lparr>logs = [0, 42]\<rparr>)"
    by (simp add: parseLog_returns_def demo_defs)
  have h1: "wait (demo_env [0, 42] False True) (world net0) = (Fulfilled \<lparr>logs = [0, 42]\<rparr>, 1)"
    and h3: "toNumber (demo_env [0, 42] False True) 42 = Inr 42"
    and h4: "notifyPriorityOp (demo_env [0, 42] False True) 1 42 COMMIT
     = (Fulfilled \<lparr>executed = False, po_data = ''block 7''\<rparr>, 2)"
    by (simp_all add: demo_defs)
  from ok verify_sequencing [where E = "demo_env [0, 42] True True" and n = net0]
  have "\<exists>k. trace (snd (snd (awaitVerifyReceipt (demo_env [0, 42] True True) new_ETHOperation net0)))
     = trace net0 @ [Call_wait, Set_state Mined, Call_notifyPriorityOp k COMMIT, Set_state Committed,
        Call_notifyPriorityOp k VERIFY, Set_state Verified]"
    by blast
  then have path: "trace (snd (snd (awaitVerifyReceipt (demo_env [0, 42] True True) new_ETHOperation net0)))
     = [Call_wait, Set_state Mined, Call_notifyPriorityOp 42 COMMIT, Set_state Committed,
        Call_notifyPriorityOp 42 VERIFY, Set_state Verified]"
    by (simp add: eth_defs demo_defs Let_def)
  from ids ret h1 h3 h4
    verify_sequencing [where E = "demo_env [0, 42] False True" and n = net0
      and rc = "\<lparr>logs = [0, 42]\<rparr>" and ?w1.0 = 1 and k = 42
      and receipt = "\<lparr>executed = False, po_data = ''block 7''\<rparr>" and ?w2.0 = 2]
  have "awaitVerifyReceipt (demo_env [0, 42] False True) new_ETHOperation net0 =
       (Rejected (ZkErr \<lparr>message = ''Priority operation failed'',
                         value = PriorityOp \<lparr>executed = False, po_data = ''block 7''\<rparr>\<rparr>),
        \<lparr>state = Failed,
         error = Some \<lparr>message = ''Priority operation failed'',
                      value = PriorityOp \<lparr>executed = False, po_data = ''block 7''\<rparr>\<rparr>,
         priorityOpId = Some 42\<rparr>,
        \<lparr>world = 2,
         trace = [Call_wait, Set_state Mined, Call_notifyPriorityOp 42 COMMIT, Set_state Failed]\<rparr>)"
    by (simp add: net0_def)
  with ok path ids ret h1 h3 h4 show ?thesis by simp
qed


subsection \<open>C5: the stored error is sticky\<close>

text \<open>
  C5. Whenever a sequence of await calls has taken a newly constructed tracker of either
  class to \<open>Failed\<close>, the error field is set, and every \<^verbatim>\<open>awaitReceipt\<close> and
  \<^verbatim>\<open>awaitVerifyReceipt\<close> from then on, in any network, is rejected with exactly that
  error and leaves the object and the network (its state and the history of round
  trips) as they are.
\<close>

theorem error_sticky:
  assumes "this = fst (run E cs (new_ETHOperation, n))"
    and "that = fst (tx_run E' ds (new_Transaction h, n'))"
  shows "(state this = Failed \<longrightarrow>
           (\<exists>err. error this = Some err
              \<and> awaitReceipt E1 this n1 = (Rejected (ZkErr err), this, n1)
              \<and> awaitVerifyReceipt E1 this n1 = (Rejected (ZkErr err), this, n1)))
     \<and> (tx_state that = TxFailed \<longrightarrow>
           (\<exists>err. tx_error that = Some err
              \<and> tx_awaitReceipt E2 that n2 = (Rejected (ZkErr err), that, n2)
              \<and> tx_awaitVerifyReceipt E2 that n2 = (Rejected (ZkErr err), that, n2)))"
proof (intro conjI impI)
  assume f: "state this = Failed"
  have "(error this \<noteq> None) = (state this = Failed)"
    unfolding assms by (rule run_error) (simp add: new_ETHOperation_def)
  with f obtain err where e: "error this = Some err" by auto
  from f e have "awaitReceipt E1 this n1 = (Rejected (ZkErr err), this, n1)"
    and "awaitVerifyReceipt E1 this n1 = (Rejected (ZkErr err), this, n1)"
    by (simp_all add: receipt_Failed verify_Failed)
  with e show "\<exists>err. error this = Some err
              \<and> awaitReceipt E1 this n1 = (Rejected (ZkErr err), this, n1)
              \<and> awaitVerifyReceipt E1 this n1 = (Rejected (ZkErr err), this, n1)"
    by simp
next
  assume f: "tx_state that = TxFailed"
  have "(tx_error that \<noteq> None) = (tx_state that = TxFailed)"
    unfolding assms by (rule tx_run_error) (simp add: new_Transaction_def)
  with f obtain err where e: "tx_error that = Some err" by auto
  from f e have "tx_awaitReceipt E2 that n2 = (Rejected (ZkErr err), that, n2)"
    and "tx_awaitVerifyReceipt E2 that n2 = (Rejected (ZkErr err), that, n2)"
    by (simp_all add: tx_receipt_Failed tx_verify_Failed)
  with e show "\<exists>err. tx_error that = Some err
              \<and> tx_awaitReceipt E2 that n2 = (Rejected (ZkErr err), that, n2)
              \<and> tx_awaitVerifyReceipt E2 that n2 = (Rejected (ZkErr err), that, n2)"
    by simp
qed


theorem error_sticky_witness:
  "state (fst (run (demo_env [42] False True) [AwaitReceipt] (new_ETHOperation, net0))) = Failed
   \<and> error (fst (run (demo_env [42] False True) [AwaitReceipt] (new_ETHOperation, net0)))
       = Some \<lparr>message = ''Priority operation failed'',
               value = PriorityOp \<lparr>executed = False, po_data = ''block 7''\<rparr>\<rparr>
   \<and> awaitVerifyReceipt (demo_env [42] True True)
        (fst (run (demo_env [42] False True) [AwaitReceipt] (new_ETHOperation, net0))) net0
       = (Rejected (ZkErr \<lparr>message = ''Priority operation failed'',
               value = PriorityOp \<lparr>executed = False, po_data = ''block 7''\<rparr>\<rparr>),
          fst (run (demo_env [42] False True) [AwaitReceipt] (new_ETHOperation, net0)), net0)
   \<and> tx_state (fst (tx_run (demo_env [] False True) [TxAwaitVerifyReceipt]
        (new_Transaction ''h'', net0))) = TxFailed
   \<and> tx_awaitReceipt (demo_env [] True True)
        (fst (tx_run (demo_env [] False True) [TxAwaitVerifyReceipt] (new_Transaction ''h'', net0)))
        net0
       = (Rejected (ZkErr \<lparr>message = ''zkSync transaction failed: insufficient balance'',
               value = SidechainTx \<lparr>success = Some False,
                 failReason = Some ''insufficient balance'', tx_data = ''block 7''\<rparr>\<rparr>),
          fst (tx_run (demo_env [] False True) [TxAwaitVerifyReceipt] (new_Transaction ''h'', net0)),
          net0)"
  using error_sticky [OF refl refl, where E = "demo_env [42] False True" and cs = "[AwaitReceipt]"
      and n = net0 and E' = "demo_env [] False True" and ds = "[TxAwaitVerifyReceipt]"
      and h = "''h''" and n' = net0 and ?E1.0 = "demo_env [42] True True" and ?n1.0 = net0
      and ?E2.0 = "demo_env [] True True" and ?n2.0 = net0]
  by (simp add: eth_defs tx_defs demo_defs Let_def)


subsection \<open>C6: the state never moves backward\<close>

text \<open>
  C6 (state monotonicity). For every tracker and every sequence of await calls, started
  from any object, the state after a longer sequence of calls is never behind the state
  after a shorter one in the ordering \<open>Sent < Mined < Committed < Verified\<close>
  (\<open>Sent < Committed < Verified\<close> for a Transaction); the only other transition is
  into \<open>Failed\<close>, and out of \<open>Failed\<close> the state does not move.
\<close>

theorem state_monotone:
  "permitted (state (fst (run E cs cfg))) (state (fst (run E (cs @ cs') cfg)))
   \<and> tx_permitted (tx_state (fst (tx_run E' ds dfg))) (tx_state (fst (tx_run E' (ds @ ds') dfg)))"
  by (simp add: run_append tx_run_append run_permitted tx_run_permitted)


theorem state_monotone_witness:
  "state (fst (run (demo_env [0, 42] True True) [AwaitEthereumTxCommit] (new_ETHOperation, net0))) = Mined
   \<and> state (fst (run (demo_env [0, 42] True True) ([AwaitEthereumTxCommit] @ [AwaitVerifyReceipt])
        (new_ETHOperation, net0))) = Verified
   \<and> permitted Mined Verified
   \<and> tx_state (fst (tx_run (demo_env [] False True) [] (new_Transaction ''h'', net0))) = TxSent
   \<and> tx_state (fst (tx_run (demo_env [] False True) ([] @ [TxAwaitReceipt, TxAwaitVerifyReceipt])
        (new_Transaction ''h'', net0))) = TxFailed
   \<and> tx_permitted TxSent TxFailed"
  using state_monotone [of "demo_env [0, 42] True True" "[AwaitEthereumTxCommit]"
      "(new_ETHOperation, net0)" "[AwaitVerifyReceipt]"
      "demo_env [] False True" "[]" "(new_Transaction ''h'', net0)"
      "[TxAwaitReceipt, TxAwaitVerifyReceipt]"]
  by (simp add: eth_defs tx_defs demo_defs Let_def)


subsection \<open>C7: the error field and the state Failed\<close>

text \<open>
  C7. At every point that a sequence of await calls reaches from a newly constructed
  tracker of either class, the error field is set if and only if the state is \<open>Failed\<close>.
\<close>

theorem error_iff_Failed:
  "((error (fst (run E cs (new_ETHOperation, n))) \<noteq> None)
      = (state (fst (run E cs (new_ETHOperation, n))) = Failed))
   \<and> ((tx_error (fst (tx_run E' ds (new_Transaction h, n'))) \<noteq> None)
      = (tx_state (fst (tx_run E' ds (new_Transaction h, n'))) = TxFailed))"
proof
  show "(error (fst (run E cs (new_ETHOperation, n))) \<noteq> None)
      = (state (fst (run E cs (new_ETHOperation, n))) = Failed)"
    by (rule run_error) (simp add: new_ETHOperation_def)
  show "(tx_error (fst (tx_run E' ds (new_Transaction h, n'))) \<noteq> None)
      = (tx_state (fst (tx_run E' ds (new_Transaction h, n'))) = TxFailed)"
    by (rule tx_run_error) (simp add: new_Transaction_def)
qed


theorem error_iff_Failed_witness:
  "error (fst (run (demo_env [42] False True) [AwaitVerifyReceipt] (new_ETHOperation, net0)))
     = Some \<lparr>message = ''Priority operation failed'',
             value = PriorityOp \<lparr>executed = False, po_data = ''block 7''\<rparr>\<rparr>
   \<and> state (fst (run (demo_env [42] False True) [AwaitVerifyReceipt] (new_ETHOperation, net0)))
     = Failed
   \<and> tx_error (fst (tx_run (demo_env [] True True) [TxAwaitVerifyReceipt]
        (new_Transaction ''h'', net0))) = None
   \<and> tx_state (fst (tx_run (demo_env [] True True) [TxAwaitVerifyReceipt]
        (new_Transaction ''h'', net0))) = TxVerified"
  using error_iff_Failed [of "demo_env [42] False True" "[AwaitVerifyReceipt]" net0
      "demo_env [] True True" "[TxAwaitVerifyReceipt]" "''h''" net0]
  by (simp add: eth_defs tx_defs demo_defs Let_def)


subsection \<open>C8: rejection of a Transaction at depth COMMIT\<close>

text \<open>
  C8. When the poll at depth COMMIT for a Transaction in \<open>Sent\<close> returns a receipt whose
  \<^verbatim>\<open>success\<close> is not true, \<^verbatim>\<open>awaitReceipt\<close> moves the tracker to \<open>Failed\<close> in that same
  call after this single round trip, and is rejected with the error that it stores. The
  message of the error is \<^verbatim>\<open>zkSync transaction failed: \<close> followed by the
  \<^verbatim>\<open>failReason\<close> of the receipt as it is, and its value is the receipt itself.
  \<^verbatim>\<open>awaitVerifyReceipt\<close> does the same and polls no further.
\<close>

theorem commit_rejection:
  assumes "tx_state this = TxSent"
    and "notifyTransaction E (world n) (txHash this) COMMIT = (Fulfilled receipt, w1)"
    and "success receipt \<noteq> Some True"
    and "err = \<lparr>message = ''zkSync transaction failed: '' @ failReason_text receipt,
                value = SidechainTx receipt\<rparr>"
  shows "tx_awaitReceipt E this n =
           (Rejected (ZkErr err), this\<lparr>tx_state := TxFailed, tx_error := Some err\<rparr>,
            \<lparr>world = w1,
             trace = trace n @ [Call_notifyTransaction (txHash this) COMMIT, Set_tx_state TxFailed]\<rparr>)
     \<and> tx_awaitVerifyReceipt E this n = tx_awaitReceipt E this n
     \<and> (\<forall>reason. failReason receipt = Some reason \<longrightarrow>
            message err = ''zkSync transaction failed: '' @ reason)
     \<and> value err = SidechainTx receipt"
proof -
  have r: "tx_awaitReceipt E this n =
           (Rejected (ZkErr err), this\<lparr>tx_state := TxFailed, tx_error := Some err\<rparr>,
            \<lparr>world = w1,
             trace = trace n @ [Call_notifyTransaction (txHash this) COMMIT, Set_tx_state TxFailed]\<rparr>)"
    using assms
    by (simp add: tx_awaitReceipt_def tx_throwErrorIfFailedState_def tx_setErrorState_def
        Let_def emit_def)
  have v: "tx_awaitVerifyReceipt E this n = tx_awaitReceipt E this n"
    by (simp add: tx_awaitVerifyReceipt_def r)
  from r v assms(4) show ?thesis
    by (simp add: failReason_text_def)
qed


theorem commit_rejection_witness:
  "tx_state (new_Transaction ''h'') = TxSent
   \<and> notifyTransaction (demo_env [] False True) (world net0) (txHash (new_Transaction ''h'')) COMMIT
       = (Fulfilled \<lparr>success = Some False, failReason = Some ''insufficient balance'',
                     tx_data = ''block 7''\<rparr>, 1)
   \<and> tx_awaitReceipt (demo_env [] False True) (new_Transaction ''h'') net0 =
       (Rejected (ZkErr \<lparr>message = ''zkSync transaction failed: insufficient balance'',
                         value = SidechainTx \<lparr>success = Some False,
                           failReason = Some ''insufficient balance'', tx_data = ''block 7''\<rparr>\<rparr>),
        \<lparr>tx_state = TxFailed,
         tx_error = Some \<lparr>message = ''zkSync transaction failed: insufficient balance'',
                         value = SidechainTx \<lparr>success = Some False,
                           failReason = Some ''insufficient balance'', tx_data = ''block 7''\<rparr>\<rparr>,
         txHash = ''h''\<rparr>,
        \<lparr>world = 1, trace = [Call_notifyTransaction ''h'' COMMIT, Set_tx_state TxFailed]\<rparr>)"
proof -
  have h1: "tx_state (new_Transaction ''h'') = TxSent"
    by (simp add: new_Transaction_def)
  have h2: "notifyTransaction (demo_env [] False True) (world net0) (txHash (new_Transaction ''h'')) COMMIT
       = (Fulfilled \<lparr>success = Some False, failReason = Some ''insufficient balance'',
                     tx_data = ''block 7''\<rparr>, 1)"
    by (simp add: demo_defs new_Transaction_def)
  have h3: "success \<lparr>success = Some False, failReason = Some ''insufficient balance'',
                     tx_data = ''block 7''\<rparr> \<noteq> Some True"
    by simp
  from commit_rejection [OF h1 h2 h3 refl] h1 h2 show ?thesis
    by (simp add: new_Transaction_def net0_def failReason_text_def)
qed


subsection \<open>C9: several priority-operation logs\<close>

text \<open>
  C9. When the receipt of the outer-chain transaction holds more than one log that
  matches the priority-operation event (and \<^verbatim>\<open>parseLog\<close> returns on every log of the
  receipt), \<^verbatim>\<open>awaitEthereumTxCommit\<close> on a tracker in \<open>Sent\<close> raises no error: it returns the receipt, moves to \<open>Mined\<close> and sets
  \<^verbatim>\<open>priorityOpId\<close> to the \<^verbatim>\<open>serialId\<close> of the last matching log in the order of the
  receipt.
\<close>

theorem last_matching_log_wins:
  assumes "state this = Sent"
    and "wait E (world n) = (Fulfilled rc, w1)"
    and "list_all (parseLog_returns E) (logs rc)"
    and "1 < length (priority_serialIds E (logs rc))"
  shows "awaitEthereumTxCommit E this n =
           (Fulfilled (Some rc),
            this\<lparr>priorityOpId := Some (last (priority_serialIds E (logs rc))), state := Mined\<rparr>,
            emit (Set_state Mined) (emit Call_wait (n\<lparr>world := w1\<rparr>)))"
proof -
  from assms(4) have "priority_serialIds E (logs rc) \<noteq> []" by auto
  with assms(1,2,3) show ?thesis
    by (simp add: awaitEthereumTxCommit_def Let_def scan_logs_eq)
qed


theorem last_matching_log_wins_witness:
  "state new_ETHOperation = Sent
   \<and> wait (demo_env [5, 0, 42, 1, 7, 0] True True) (world net0)
       = (Fulfilled \<lparr>logs = [5, 0, 42, 1, 7, 0]\<rparr>, 1)
   \<and> list_all (parseLog_returns (demo_env [5, 0, 42, 1, 7, 0] True True))
        (logs \<lparr>logs = [5, 0, 42, 1, 7, 0]\<rparr>)
   \<and> priority_serialIds (demo_env [5, 0, 42, 1, 7, 0] True True) [5, 0, 42, 1, 7, 0] = [5, 42, 7]
   \<and> awaitEthereumTxCommit (demo_env [5, 0, 42, 1, 7, 0] True True) new_ETHOperation net0 =
        (Fulfilled (Some \<lparr>logs = [5, 0, 42, 1, 7, 0]\<rparr>),
         \<lparr>state = Mined, error = None, priorityOpId = Some 7\<rparr>,
         \<lparr>world = 1, trace = [Call_wait, Set_state Mined]\<rparr>)"
proof -
  have h1: "state new_ETHOperation = Sent"
    by (simp add: new_ETHOperation_def)
  have h2: "wait (demo_env [5, 0, 42, 1, 7, 0] True True) (world net0)
       = (Fulfilled \<lparr>logs = [5, 0, 42, 1, 7, 0]\<rparr>, 1)"
    by (simp add: demo_defs)
  have ids: "priority_serialIds (demo_env [5, 0, 42, 1, 7, 0] True True) [5, 0, 42, 1, 7, 0] = [5, 42, 7]"
    by (simp add: priority_serialIds_def serialId_of_def demo_defs)
  have h3: "1 < length (priority_serialIds (demo_env [5, 0, 42, 1, 7, 0] True True)
                 (logs \<lparr>logs = [5, 0, 42, 1, 7, 0]\<rparr>))"
    using ids by simp
  have ret: "list_all (parseLog_returns (demo_env [5, 0, 42, 1, 7, 0] True True))
        (logs \<lparr>logs = [5, 0, 42, 1, 7, 0]\<rparr>)"
    by (simp add: parseLog_returns_def demo_defs)
  from last_matching_log_wins [OF h1 h2 ret h3] h1 h2 ret ids show ?thesis
    by (simp add: new_ETHOperation_def demo_defs)
qed


subsection \<open>C10: the identifier is defined from Mined on\<close>

text \<open>
  C10. At every point that a sequence of await calls reaches from a newly constructed
  ETHOperation: if the state is \<open>Mined\<close>, \<open>Committed\<close>, \<open>Verified\<close> or \<open>Failed\<close>
  then \<^verbatim>\<open>priorityOpId\<close> is defined; and once the state has left \<open>Sent\<close>, no further call
  changes \<^verbatim>\<open>priorityOpId\<close>, so it is never cleared afterwards.
\<close>

theorem priorityOpId_defined:
  assumes "this = fst (run E cs (new_ETHOperation, n))"
  shows "(state this \<in> {Mined, Committed, Verified, Failed} \<longrightarrow> priorityOpId this \<noteq> None)
     \<and> (state this \<noteq> Sent \<longrightarrow>
          priorityOpId (fst (run E (cs @ cs') (new_ETHOperation, n))) = priorityOpId this)"
proof -
  have inv: "state this \<noteq> Sent \<longrightarrow> priorityOpId this \<noteq> None"
    unfolding assms by (rule run_id) (simp add: new_ETHOperation_def)
  have kept: "state this \<noteq> Sent \<Longrightarrow>
      priorityOpId (fst (run E (cs @ cs') (new_ETHOperation, n))) = priorityOpId this"
    unfolding assms run_append by (simp add: run_id_kept)
  from inv kept show ?thesis by auto
qed

theorem priorityOpId_defined_witness:
  "state (fst (run (demo_env [42] False True) [AwaitEthereumTxCommit] (new_ETHOperation, net0))) = Mined
   \<and> state (fst (run (demo_env [42] False True) [AwaitEthereumTxCommit] (new_ETHOperation, net0)))
        \<in> {Mined, Committed, Verified, Failed}
   \<and> priorityOpId (fst (run (demo_env [42] False True) [AwaitEthereumTxCommit]
        (new_ETHOperation, net0))) = Some 42
   \<and> state (fst (run (demo_env [42] False True) ([AwaitEthereumTxCommit] @ [AwaitReceipt])
        (new_ETHOperation, net0))) = Failed
   \<and> priorityOpId (fst (run (demo_env [42] False True) ([AwaitEthereumTxCommit] @ [AwaitReceipt])
        (new_ETHOperation, net0))) = Some 42"
  using priorityOpId_defined [OF refl, of "demo_env [42] False True" "[AwaitEthereumTxCommit]"
      net0 "[AwaitReceipt]"]
  by (simp add: eth_defs demo_defs Let_def)

end
